theory Spec2Isabelle
  imports Complex_Main "HOL-Library.Sublist" "HOL-Library.Monad_Syntax"
begin

section \<open>Numbers and strings of the host language\<close>

text \<open>
  A TypeScript \<open>number\<close> is an IEEE 754 binary64 value. The model writes a finite one
  as the real it denotes. \<open>binary64 x\<close> is the finite double nearest to the real \<open>x\<close>, a
  tie going to the even significand: the unit in the last place is \<open>2\<close> to the power
  \<open>exponent x - 52\<close>, where the exponent does not go below \<open>-1022\<close> (gradual underflow).
  The exponent is not bounded above: overflow to infinity is not modelled, and the
  non-finite values (NaN, the infinities) and the sign of zero are not values of the
  model.
\<close>

type_synonym number = real

definition pow2 :: "int \<Rightarrow> real" where
  "pow2 k = (if 0 \<le> k then 2 ^ nat k else 1 / 2 ^ nat (- k))"

definition round_even :: "real \<Rightarrow> int" where
  "round_even y =
     (if y - of_int \<lfloor>y\<rfloor> < 1 / 2 then \<lfloor>y\<rfloor>
      else if 1 / 2 < y - of_int \<lfloor>y\<rfloor> then \<lfloor>y\<rfloor> + 1
      else if even \<lfloor>y\<rfloor> then \<lfloor>y\<rfloor> else \<lfloor>y\<rfloor> + 1)"

definition exponent :: "real \<Rightarrow> int" where
  "exponent x = max \<lfloor>log 2 \<bar>x\<bar>\<rfloor> (- 1022)"

definition binary64 :: "real \<Rightarrow> number" where
  "binary64 x =
     (if x = 0 then 0
      else of_int (round_even (x / pow2 (exponent x - 52))) * pow2 (exponent x - 52))"

text \<open>
  The arithmetic operators of the source: the exact result, rounded once. \<open>div64\<close> is
  for a divisor that is a non-zero literal. Where the source divides by a quantity that
  may be zero, or takes a square root, the model uses the checked operations, whose
  result \<open>None\<close> says that the source would have produced a non-finite number there.
  \<open>Math.pow\<close> is used with the exponent 2 only, where it is the square rounded once.
\<close>

definition add64 :: "number \<Rightarrow> number \<Rightarrow> number" where
  "add64 a b = binary64 (a + b)"

definition sub64 :: "number \<Rightarrow> number \<Rightarrow> number" where
  "sub64 a b = binary64 (a - b)"

definition mul64 :: "number \<Rightarrow> number \<Rightarrow> number" where
  "mul64 a b = binary64 (a * b)"

definition div64 :: "number \<Rightarrow> number \<Rightarrow> number" where
  "div64 a b = binary64 (a / b)"

definition divide_checked :: "number \<Rightarrow> number \<Rightarrow> number option" where
  "divide_checked a b = (if b = 0 then None else Some (binary64 (a / b)))"

definition Math_sqrt :: "number \<Rightarrow> number option" where
  "Math_sqrt x = (if x < 0 then None else Some (binary64 (sqrt x)))"

definition Math_pow :: "number \<Rightarrow> nat \<Rightarrow> number" where
  "Math_pow x n = binary64 (x ^ n)"

text \<open>
  \<open>Math.round\<close>: the nearest integer, a tie going to the larger one. The result is
  a double whenever the argument is, so nothing is rounded a second time.
\<close>

definition Math_round :: "number \<Rightarrow> number" where
  "Math_round x = of_int \<lfloor>x + 1 / 2\<rfloor>"

definition Math_max :: "number \<Rightarrow> number \<Rightarrow> number" where
  "Math_max a b = max a b"

text \<open>\<open>String.prototype.includes\<close>: the argument occurs as a contiguous part.\<close>

fun String_includes :: "string \<Rightarrow> string \<Rightarrow> bool" where
  "String_includes [] sub = (sub = [])"
| "String_includes (c # cs) sub = (prefix sub (c # cs) \<or> String_includes cs sub)"

section \<open>The data model (types/health)\<close>

text \<open>
  The two object types that the data providers resolve with share field names with
  \<open>HealthMetrics\<close>; their fields are written with the record's name in front.
\<close>

record SleepAnalysis =
  deepSleepPercentage :: number
  remSleepPercentage :: number
  sleepConsistency :: number

record WorkoutData =
  monthlyTrainingTime :: number
  trainingIntensity :: number

record HealthMetrics =
  restingHeartRate :: number
  heartRateVariability :: number
  vo2Max :: number
  deepSleepPercentage :: number
  remSleepPercentage :: number
  sleepConsistency :: number
  monthlyTrainingTime :: number
  trainingIntensity :: number
  dailySteps :: number

text \<open>
  The history item and the fitness level are declared in a module outside this
  development; they are the type parameters \<open>'item\<close> and \<open>'level\<close>.
\<close>

record 'item CategoryResult =
  total :: number
  items :: "'item list"

record BonusResult =
  points :: number
  detailedExplanation :: string

record BonusBreakdown =
  cardiovascularPercent :: number
  recoveryPercent :: number
  activityPercent :: number
  excellentCategories :: "string list"
  requirementsExplanation :: string

record ('item, 'level) FitnessScoreResult =
  totalScore :: number
  cardiovascularPoints :: number
  recoveryPoints :: number
  activityPoints :: number
  bonusPoints :: number
  fitnessLevel :: 'level
  bonusBreakdown :: BonusBreakdown
  historyItems :: "'item list"

section \<open>The fitness score (utils/fitnessCalculator)\<close>

text \<open>
  \<open>calculateFitnessScore\<close> calls six functions of the modules \<open>categoryCalculators\<close>
  and \<open>scoringUtils\<close>, which are outside this development. They are the fields of a
  record that the model takes as its first argument, so that a statement with a free
  \<open>deps\<close> holds for whatever these functions compute. The three percentages are
  computed with the binary64 operations. The sum of the four point values and the
  quotient \<open>monthlyTrainingTime / 30\<close> are written with the exact \<open>+\<close> and \<open>/\<close>;
  \<open>rounded_total_within_0_100\<close> and \<open>daily_average_of_300\<close> below show that the bound
  on the sum and the value at 300 are the same when each operation is rounded.
\<close>

record ('item, 'level) dependencies =
  calculateCardiovascularPoints :: "number \<Rightarrow> number \<Rightarrow> number \<Rightarrow> 'item CategoryResult"
  calculateRecoveryPoints :: "number \<Rightarrow> number \<Rightarrow> number \<Rightarrow> 'item CategoryResult"
  calculateActivityPoints :: "number \<Rightarrow> number \<Rightarrow> number \<Rightarrow> 'item CategoryResult"
  createBonusHistoryItem :: "number \<Rightarrow> number \<Rightarrow> number \<Rightarrow> 'item"
  calculateBonusPoints :: "number \<Rightarrow> number \<Rightarrow> number \<Rightarrow> BonusResult"
  determineFitnessLevel :: "number \<Rightarrow> 'level"

definition calculateFitnessScore ::
  "('item, 'level) dependencies \<Rightarrow> HealthMetrics \<Rightarrow> ('item, 'level) FitnessScoreResult" where
  "calculateFitnessScore deps metrics =
     (let cardiovascularResult =
            calculateCardiovascularPoints deps
              (restingHeartRate metrics) (heartRateVariability metrics) (vo2Max metrics);
          recoveryResult =
            calculateRecoveryPoints deps
              (deepSleepPercentage metrics) (remSleepPercentage metrics)
              (sleepConsistency metrics);
          activityResult =
            calculateActivityPoints deps
              (monthlyTrainingTime metrics / 30) (trainingIntensity metrics)
              (dailySteps metrics);
          bonusResult =
            calculateBonusPoints deps
              (total cardiovascularResult) (total recoveryResult) (total activityResult);
          bonusHistoryItem =
            createBonusHistoryItem deps
              (total cardiovascularResult) (total recoveryResult) (total activityResult);
          totalScore =
            total cardiovascularResult + total recoveryResult + total activityResult
              + points bonusResult;
          fitnessLevel = determineFitnessLevel deps totalScore;
          historyItems =
            items cardiovascularResult @ items recoveryResult @ items activityResult
              @ [bonusHistoryItem]
      in \<lparr> totalScore = totalScore,
           cardiovascularPoints = total cardiovascularResult,
           recoveryPoints = total recoveryResult,
           activityPoints = total activityResult,
           bonusPoints = points bonusResult,
           fitnessLevel = fitnessLevel,
           bonusBreakdown =
             \<lparr> cardiovascularPercent =
                 Math_round (mul64 (div64 (total cardiovascularResult) 30) 100),
               recoveryPercent = Math_round (mul64 (div64 (total recoveryResult) 35) 100),
               activityPercent = Math_round (mul64 (div64 (total activityResult) 30) 100),
               excellentCategories =
                 (if String_includes (detailedExplanation bonusResult) ''all three''
                  then [''Cardiovascular'', ''Recovery'', ''Activity'']
                  else []),
               requirementsExplanation = detailedExplanation bonusResult \<rparr>,
           historyItems = historyItems \<rparr>)"

subsection \<open>The bonus rule, and calculators with fixed totals\<close>

text \<open>
  The categories whose total is at or above 75 percent of the category's maximum
  (30, 35 and 30), in the order Cardiovascular, Recovery, Activity. This is the
  specification's reading of "the categories that qualified as excellent".
\<close>

definition qualifyingCategories :: "number \<Rightarrow> number \<Rightarrow> number \<Rightarrow> string list" where
  "qualifyingCategories cardioTotal recoveryTotal activityTotal =
     (if 75 \<le> cardioTotal / 30 * 100 then [''Cardiovascular''] else [])
       @ (if 75 \<le> recoveryTotal / 35 * 100 then [''Recovery''] else [])
       @ (if 75 \<le> activityTotal / 30 * 100 then [''Activity''] else [])"

text \<open>
  Modelled from the spec: \<open>calculateBonusPoints\<close> of the module \<open>scoringUtils\<close>, which
  is outside this development. The specification has it compute each category's percent
  of its maximum, count the categories at or above 75, map the count to points by the
  table 0 to 0, 1 to 1, 2 to 3, 3 to 5, and explain the outcome in a text that names the
  qualifying categories and carries the phrase "all three" when the count is 3. The
  wording around the phrase and the names is this model's own.
\<close>

fun joinNames :: "string list \<Rightarrow> string" where
  "joinNames [] = []"
| "joinNames [n] = n"
| "joinNames (n # ns) = n @ '', '' @ joinNames ns"

definition scoringUtils_calculateBonusPoints :: "number \<Rightarrow> number \<Rightarrow> number \<Rightarrow> BonusResult" where
  "scoringUtils_calculateBonusPoints cardioTotal recoveryTotal activityTotal =
     (let qualified = qualifyingCategories cardioTotal recoveryTotal activityTotal;
          count = length qualified
      in \<lparr> points = (if count = 3 then 5 else if count = 2 then 3
                       else if count = 1 then 1 else 0),
           detailedExplanation =
             (if count = 3 then ''all three categories at 75% or more: '' @ joinNames qualified
              else if count = 0 then ''no category at 75% or more''
              else ''at 75% or more: '' @ joinNames qualified) \<rparr>)"

text \<open>
  The category calculators are outside this development, and the specification leaves
  their thresholds open. Where a statement needs a concrete set of dependencies, the
  calculators below award the given totals on every input: they stand for the
  calculators at an input on which those award these totals. The bonus is the one
  modelled above.
\<close>

definition fixedTotals :: "number \<Rightarrow> number \<Rightarrow> number \<Rightarrow> (string, unit) dependencies" where
  "fixedTotals c r a =
     \<lparr> calculateCardiovascularPoints = (\<lambda>rhr hrv vo2. \<lparr> total = c, items = [''RHR'', ''HRV'', ''VO2 Max''] \<rparr>),
       calculateRecoveryPoints = (\<lambda>deep rem consistency. \<lparr> total = r, items = [''Deep Sleep'', ''REM Sleep'', ''Sleep Consistency''] \<rparr>),
       calculateActivityPoints = (\<lambda>minutes intensity steps. \<lparr> total = a, items = [''Training Time'', ''Training Intensity'', ''Daily Steps''] \<rparr>),
       createBonusHistoryItem = (\<lambda>c r a. ''Bonus''),
       calculateBonusPoints = scoringUtils_calculateBonusPoints,
       determineFitnessLevel = (\<lambda>score. ()) \<rparr>"

definition zeroMetrics :: HealthMetrics where
  "zeroMetrics =
     \<lparr> restingHeartRate = 0, heartRateVariability = 0, vo2Max = 0,
       deepSleepPercentage = 0, remSleepPercentage = 0, sleepConsistency = 0,
       monthlyTrainingTime = 0, trainingIntensity = 0, dailySteps = 0 \<rparr>"

section \<open>The health data providers (services/healthDataProviders)\<close>

text \<open>
  The providers read the platform and the HealthKit store. The model takes what these
  answer as a record: the platform's name, and for each HealthKit query the arguments
  with which its callback is invoked, the error first. Each query invokes its callback
  once. The query options (date range, limit) only select what the store answers and
  are not modelled. A callback error is a string, or absent.
\<close>

text \<open>
  A sleep sample carries its two dates as the time values, in milliseconds, that
  \<open>new Date(...).getTime()\<close> gives for them; HealthKit delivers valid dates.
\<close>

record SleepSample =
  startDate :: int
  endDate :: int
  "value" :: string

record HealthValue =
  "value" :: number

datatype error = HealthKitInitializationError string | ProviderError string

record HealthKit =
  Platform_OS :: string
  initHealthKit :: "string option"
  getRestingHeartRateSamples :: "string option \<times> HealthValue list"
  getHeartRateVariabilitySamples :: "string option \<times> HealthValue list"
  getVo2MaxSamples :: "string option \<times> HealthValue list"
  getSleepSamples :: "string option \<times> SleepSample list"
  getStepCount :: "string option \<times> HealthValue"
  getMonthlyWorkoutData :: "error + WorkoutData"

text \<open>The truth value of a callback error in a condition: absent and empty are false.\<close>

fun truthy :: "string option \<Rightarrow> bool" where
  "truthy None = False"
| "truthy (Some s) = (s \<noteq> [])"

text \<open>
  A provider is an asynchronous function; the model gives how its promise settles:
  \<open>Inr v\<close> when it resolves with \<open>v\<close>, \<open>Inl e\<close> when it rejects with \<open>e\<close>. Around
  this, \<open>None\<close> says that the computation met a division by zero or the square root of
  a negative number.
\<close>

definition getRestingHeartRateData :: "HealthKit \<Rightarrow> (error + number) option" where
  "getRestingHeartRateData env =
     (if Platform_OS env \<noteq> ''ios'' then Some (Inr 0)
      else case getRestingHeartRateSamples env of (callbackError, results) \<Rightarrow>
        if truthy callbackError then Some (Inr 0)
        else do {
          averageRestingHeartRate \<leftarrow>
            (if length results > 0
             then divide_checked (foldl (\<lambda>sum sample. add64 sum (value sample)) 0 results)
                    (of_nat (length results))
             else Some 0);
          Some (Inr (Math_round averageRestingHeartRate))
        })"

definition getHeartRateVariabilityData :: "HealthKit \<Rightarrow> (error + number) option" where
  "getHeartRateVariabilityData env =
     (if Platform_OS env \<noteq> ''ios'' then Some (Inr 0)
      else case getHeartRateVariabilitySamples env of (callbackError, results) \<Rightarrow>
        if truthy callbackError then Some (Inr 0)
        else do {
          averageHeartRateVariability \<leftarrow>
            (if length results > 0
             then divide_checked (foldl (\<lambda>sum sample. add64 sum (value sample)) 0 results)
                    (of_nat (length results))
             else Some 0);
          Some (Inr (Math_round averageHeartRateVariability))
        })"

definition getVO2MaxData :: "HealthKit \<Rightarrow> (error + number) option" where
  "getVO2MaxData env =
     (if Platform_OS env \<noteq> ''ios'' then Some (Inr 0)
      else case getVo2MaxSamples env of (callbackError, results) \<Rightarrow>
        if truthy callbackError then Some (Inr 0)
        else do {
          averageVO2Max \<leftarrow>
            (if length results > 0
             then divide_checked (foldl (\<lambda>sum sample. add64 sum (value sample)) 0 results)
                    (of_nat (length results))
             else Some 0);
          Some (Inr (div64 (Math_round (mul64 averageVO2Max 10)) 10))
        })"

text \<open>
  The sleep callback walks the samples once (\<open>results.forEach\<close>), adding to three
  running totals and appending each sample's hours to \<open>sleepDurations\<close>:
  \<open>addSleepSample\<close> is the body of the loop, \<open>sleepTotals\<close> the loop, and
  \<open>sleepCallback\<close> the branch of the callback that runs when no error is reported.
  \<open>sleepStandardDeviation\<close> is the part of that branch that computes \<open>averageSleep\<close>,
  \<open>variance\<close> and \<open>standardDeviation\<close> from \<open>sleepDurations\<close>, by the source's two
  \<open>reduce\<close> calls.
\<close>

record SleepTotals =
  totalDeepSleep :: number
  totalRemSleep :: number
  totalSleep :: number
  sleepDurations :: "number list"

definition addSleepSample :: "SleepTotals \<Rightarrow> SleepSample \<Rightarrow> SleepTotals" where
  "addSleepSample acc sample =
     (let duration = sub64 (of_int (endDate sample)) (of_int (startDate sample));
          hours = div64 duration (1000 * 60 * 60);
          acc1 = acc\<lparr> totalSleep := add64 (totalSleep acc) hours \<rparr>;
          acc2 = (if SleepSample.value sample = ''DEEP''
                  then acc1\<lparr> totalDeepSleep := add64 (totalDeepSleep acc1) hours \<rparr>
                  else if SleepSample.value sample = ''REM''
                  then acc1\<lparr> totalRemSleep := add64 (totalRemSleep acc1) hours \<rparr>
                  else acc1)
      in acc2\<lparr> sleepDurations := sleepDurations acc2 @ [hours] \<rparr>)"

definition sleepTotals :: "SleepSample list \<Rightarrow> SleepTotals" where
  "sleepTotals results =
     foldl addSleepSample
       \<lparr> totalDeepSleep = 0, totalRemSleep = 0, totalSleep = 0, sleepDurations = [] \<rparr>
       results"

definition sleepStandardDeviation :: "number list \<Rightarrow> number option" where
  "sleepStandardDeviation durations =
     do {
       averageSleep \<leftarrow>
         (if length durations > 0
          then divide_checked (foldl (\<lambda>a b. add64 a b) 0 durations)
                 (of_nat (length durations))
          else Some 0);
       variance \<leftarrow>
         (if length durations > 0
          then divide_checked
                 (foldl (\<lambda>sum duration. add64 sum (Math_pow (sub64 duration averageSleep) 2)) 0
                    durations)
                 (of_nat (length durations))
          else Some 0);
       Math_sqrt variance
     }"

definition sleepCallback :: "SleepSample list \<Rightarrow> SleepAnalysis option" where
  "sleepCallback results =
     (let acc = sleepTotals results
      in do {
        deepSleepPercentage \<leftarrow>
          (if totalSleep acc > 0
           then map_option (\<lambda>q. mul64 q 100)
                  (divide_checked (totalDeepSleep acc) (totalSleep acc))
           else Some 0);
        remSleepPercentage \<leftarrow>
          (if totalSleep acc > 0
           then map_option (\<lambda>q. mul64 q 100)
                  (divide_checked (totalRemSleep acc) (totalSleep acc))
           else Some 0);
        standardDeviation \<leftarrow> sleepStandardDeviation (sleepDurations acc);
        let sleepConsistency = Math_max 0 (sub64 100 (mul64 standardDeviation 20));
        Some \<lparr> SleepAnalysis.deepSleepPercentage =
                 div64 (Math_round (mul64 deepSleepPercentage 10)) 10,
               remSleepPercentage = div64 (Math_round (mul64 remSleepPercentage 10)) 10,
               sleepConsistency = Math_round sleepConsistency \<rparr>
      })"

definition getSleepAnalysisData :: "HealthKit \<Rightarrow> (error + SleepAnalysis) option" where
  "getSleepAnalysisData env =
     (if Platform_OS env \<noteq> ''ios''
      then Some (Inr \<lparr> SleepAnalysis.deepSleepPercentage = 0, remSleepPercentage = 0,
                        sleepConsistency = 0 \<rparr>)
      else case getSleepSamples env of (callbackError, results) \<Rightarrow>
        if truthy callbackError
        then Some (Inr \<lparr> SleepAnalysis.deepSleepPercentage = 0, remSleepPercentage = 0,
                          sleepConsistency = 0 \<rparr>)
        else map_option Inr (sleepCallback results))"

text \<open>\<open>results.value || 0\<close>: the value, or 0 when the value is 0.\<close>

definition getTodaysStepCount :: "HealthKit \<Rightarrow> (error + number) option" where
  "getTodaysStepCount env =
     (if Platform_OS env \<noteq> ''ios'' then Some (Inr 0)
      else case getStepCount env of (callbackError, results) \<Rightarrow>
        if truthy callbackError then Some (Inr 0)
        else Some (Inr (if value results \<noteq> 0 then value results else 0)))"

section \<open>The health service (services/healthService)\<close>

record HealthService =
  isHealthKitInitialized :: bool

definition initialize :: "HealthService \<Rightarrow> HealthKit \<Rightarrow> HealthService \<times> bool" where
  "initialize this env =
     (if Platform_OS env \<noteq> ''ios'' then (this, False)
      else if truthy (initHealthKit env)
      then (this\<lparr> isHealthKitInitialized := False \<rparr>, False)
      else (this\<lparr> isHealthKitInitialized := True \<rparr>, True))"

text \<open>
  \<open>await\<close> inside \<open>try ... catch (error) { throw error }\<close>: a rejection leaves with the
  same error. \<open>Promise.all\<close> over the six providers is the chain of six awaits; with two
  rejections it is the earlier in the list whose error the model reports.
  \<open>getMonthlyWorkoutData\<close> belongs to a module outside this development: how its promise
  settles is a field of the environment. \<open>collectHealthMetrics\<close> is the \<open>try\<close> block of
  \<open>getAllHealthMetrics\<close>; the service's state is passed in and returned.
\<close>

definition await :: "error + 'a \<Rightarrow> ('a \<Rightarrow> error + 'b) \<Rightarrow> error + 'b" where
  "await p k = (case p of Inl e \<Rightarrow> Inl e | Inr v \<Rightarrow> k v)"

definition collectHealthMetrics :: "HealthKit \<Rightarrow> (error + HealthMetrics) option" where
  "collectHealthMetrics env =
     do {
       p1 \<leftarrow> getRestingHeartRateData env;
       p2 \<leftarrow> getHeartRateVariabilityData env;
       p3 \<leftarrow> getVO2MaxData env;
       p4 \<leftarrow> getSleepAnalysisData env;
       p5 \<leftarrow> getTodaysStepCount env;
       Some
         (await p1 (\<lambda>restingHeartRate.
          await p2 (\<lambda>heartRateVariability.
          await p3 (\<lambda>vo2Max.
          await p4 (\<lambda>sleepData.
          await p5 (\<lambda>dailySteps.
          await (getMonthlyWorkoutData env) (\<lambda>workoutData.
            Inr \<lparr> restingHeartRate = restingHeartRate,
                  heartRateVariability = heartRateVariability,
                  vo2Max = vo2Max,
                  deepSleepPercentage = SleepAnalysis.deepSleepPercentage sleepData,
                  remSleepPercentage = SleepAnalysis.remSleepPercentage sleepData,
                  sleepConsistency = SleepAnalysis.sleepConsistency sleepData,
                  monthlyTrainingTime = WorkoutData.monthlyTrainingTime workoutData,
                  trainingIntensity = WorkoutData.trainingIntensity workoutData,
                  dailySteps = dailySteps \<rparr>)))))))
     }"

definition getAllHealthMetrics ::
  "HealthService \<Rightarrow> HealthKit \<Rightarrow> (HealthService \<times> (error + HealthMetrics)) option" where
  "getAllHealthMetrics this env =
     (if \<not> isHealthKitInitialized this
      then (case initialize this env of (this', initialized) \<Rightarrow>
              if \<not> initialized
              then Some (this', Inl (HealthKitInitializationError ''Failed to initialize HealthKit''))
              else map_option (Pair this') (collectHealthMetrics env))
      else map_option (Pair this) (collectHealthMetrics env))"

section \<open>Concrete environments\<close>

text \<open>
  Lists of sleep samples: one night of eight hours; two sleep periods of two and of six
  hours; two of four hours and of eight hours and three minutes; two of four minutes and
  of four hours and seven minutes; and a night of eight hours of which the first 138
  minutes are deep sleep. \<open>iPhone\<close> is an iOS device on which no query reports an error, the
  sleep query answers the given samples, the other sample queries answer none, and the
  workout provider resolves with zeros.
\<close>

definition oneNight :: "SleepSample list" where
  "oneNight = [\<lparr> startDate = 0, endDate = 28800000, value = ''CORE'' \<rparr>]"

definition twoNights :: "SleepSample list" where
  "twoNights = [\<lparr> startDate = 0, endDate = 7200000, value = ''DEEP'' \<rparr>,
                \<lparr> startDate = 86400000, endDate = 108000000, value = ''CORE'' \<rparr>]"



definition deepAndCore :: "SleepSample list" where
  "deepAndCore =
     [\<lparr> startDate = 0, endDate = 8280000, value = ''DEEP'' \<rparr>,
      \<lparr> startDate = 8280000, endDate = 28800000, value = ''CORE'' \<rparr>]"

definition iPhone :: "SleepSample list \<Rightarrow> HealthKit" where
  "iPhone sleepSamples =
     \<lparr> Platform_OS = ''ios'', initHealthKit = None,
       getRestingHeartRateSamples = (None, []),
       getHeartRateVariabilitySamples = (None, []),
       getVo2MaxSamples = (None, []),
       getSleepSamples = (None, sleepSamples),
       getStepCount = (None, \<lparr> value = 0 \<rparr>),
       getMonthlyWorkoutData =
         Inr \<lparr> WorkoutData.monthlyTrainingTime = 0, trainingIntensity = 0 \<rparr> \<rparr>"

section \<open>The standard deviation, as the specification words it\<close>

text \<open>
  The per-sample sleep durations in hours, and the (population) standard deviation of a
  list of numbers: the square root of the mean squared distance from the mean, and 0 for
  the empty list, both in exact arithmetic. These follow the specification's words; the
  theorems below compare them with what \<open>sleepCallback\<close> computes.
\<close>

definition sleepHours :: "SleepSample list \<Rightarrow> number list" where
  "sleepHours results =
     map (\<lambda>sample. (of_int (endDate sample) - of_int (startDate sample)) / 3600000) results"

definition mean :: "number list \<Rightarrow> number" where
  "mean xs = (if xs = [] then 0 else sum_list xs / of_nat (length xs))"

definition populationStandardDeviation :: "number list \<Rightarrow> number" where
  "populationStandardDeviation xs =
     (if xs = [] then 0
      else sqrt (sum_list (map (\<lambda>x. (x - mean xs) ^ 2) xs) / of_nat (length xs)))"

section \<open>Properties of the rounding\<close>

lemma pow2_powr: "pow2 k = 2 powr (of_int k)"
  by (simp add: pow2_def powr_int power_int_def field_simps)

lemma pow2_pos [simp]: "0 < pow2 k"
  by (simp add: pow2_powr)

lemma pow2_nonneg [simp]: "0 \<le> pow2 k"
  using pow2_pos [of k] by linarith

lemma pow2_not_le_0 [simp]: "\<not> pow2 k \<le> 0"
  using pow2_pos [of k] by linarith

lemma pow2_neq_0 [simp]: "pow2 k \<noteq> 0"
  using pow2_pos [of k] by linarith

lemma pow2_add: "pow2 (j + k) = pow2 j * pow2 k"
  by (simp add: pow2_powr powr_add)

lemma pow2_mono: "j \<le> k \<Longrightarrow> pow2 j \<le> pow2 k"
  by (simp add: pow2_powr)

lemma exponent_normal:
  assumes "pow2 k \<le> \<bar>x\<bar>" and "\<bar>x\<bar> < pow2 (k + 1)" and "- 1022 \<le> k"
  shows "exponent x = k"
proof -
  have pos: "0 < \<bar>x\<bar>" using assms(1) pow2_pos [of k] by linarith
  have "\<lfloor>log 2 \<bar>x\<bar>\<rfloor> = k"
    using assms(1,2) pos by (simp add: floor_log_eq_powr_iff pow2_powr)
  with assms(3) show ?thesis by (simp add: exponent_def)
qed

lemma exponent_ge: "- 1022 \<le> exponent x"
  by (simp add: exponent_def)

lemma exponent_upper: "x \<noteq> 0 \<Longrightarrow> \<bar>x\<bar> < pow2 (exponent x + 1)"
proof -
  assume "x \<noteq> 0"
  then have pos: "0 < \<bar>x\<bar>" by simp
  have "\<bar>x\<bar> < 2 powr (of_int (\<lfloor>log 2 \<bar>x\<bar>\<rfloor> + 1))"
    using floor_log_eq_powr_iff [of "\<bar>x\<bar>" 2 "\<lfloor>log 2 \<bar>x\<bar>\<rfloor>"] pos by simp
  also have "\<dots> \<le> pow2 (exponent x + 1)"
    unfolding pow2_powr by (simp add: exponent_def)
  finally show ?thesis .
qed

lemma exponent_lower: "x \<noteq> 0 \<Longrightarrow> - 1022 < exponent x \<Longrightarrow> pow2 (exponent x) \<le> \<bar>x\<bar>"
proof -
  assume a: "- 1022 < exponent x" and "x \<noteq> 0"
  then have e: "exponent x = \<lfloor>log 2 \<bar>x\<bar>\<rfloor>" by (auto simp: exponent_def max_def split: if_splits)
  have pos: "0 < \<bar>x\<bar>" using \<open>x \<noteq> 0\<close> by simp
  show ?thesis unfolding e pow2_powr
    using floor_log_eq_powr_iff [of "\<bar>x\<bar>" 2 "\<lfloor>log 2 \<bar>x\<bar>\<rfloor>"] pos by simp
qed

lemma exponent_mono: "x \<noteq> 0 \<Longrightarrow> \<bar>x\<bar> \<le> \<bar>y\<bar> \<Longrightarrow> exponent x \<le> exponent y"
  unfolding exponent_def
  by (intro max.mono floor_mono log_mono) auto

lemma exponent_minus [simp]: "exponent (- x) = exponent x"
  by (simp add: exponent_def)

lemma round_even_of_int [simp]: "round_even (of_int n) = n"
  by (simp add: round_even_def)

lemma round_even_mono: "y \<le> z \<Longrightarrow> round_even y \<le> round_even z"
proof -
  assume yz: "y \<le> z"
  have fl: "\<lfloor>y\<rfloor> \<le> \<lfloor>z\<rfloor>" using yz by (rule floor_mono)
  show ?thesis
  proof (cases "\<lfloor>y\<rfloor> = \<lfloor>z\<rfloor>")
    case True
    then show ?thesis using yz by (auto simp: round_even_def)
  next
    case False
    with fl have "\<lfloor>y\<rfloor> + 1 \<le> \<lfloor>z\<rfloor>" by simp
    moreover have "round_even y \<le> \<lfloor>y\<rfloor> + 1" by (simp add: round_even_def)
    moreover have "\<lfloor>z\<rfloor> \<le> round_even z" by (simp add: round_even_def)
    ultimately show ?thesis by linarith
  qed
qed

lemma round_even_eqI:
  assumes "of_int n - 1 / 2 < y" and "y < of_int n + 1 / 2"
  shows "round_even y = n"
proof (cases "of_int n \<le> y")
  case True
  then have "\<lfloor>y\<rfloor> = n" using assms by (simp add: floor_eq_iff)
  then show ?thesis using assms by (simp add: round_even_def)
next
  case False
  then have "\<lfloor>y\<rfloor> = n - 1" using assms by (simp add: floor_eq_iff)
  then show ?thesis using assms by (simp add: round_even_def)
qed

lemma round_even_minus: "round_even (- y) = - round_even y"
proof (cases "y = of_int \<lfloor>y\<rfloor>")
  case True
  then obtain n where "y = of_int n" ..
  then show ?thesis by (simp flip: of_int_minus)
next
  case False
  then have f: "\<lfloor>- y\<rfloor> = - \<lfloor>y\<rfloor> - 1"
    by (simp add: floor_eq_iff) linarith
  show ?thesis unfolding round_even_def f by auto
qed

lemma binary64_0 [simp]: "binary64 0 = 0"
  by (simp add: binary64_def)

lemma binary64_minus: "binary64 (- x) = - binary64 x"
  by (simp add: binary64_def round_even_minus)

lemma binary64_nonneg: "0 \<le> x \<Longrightarrow> 0 \<le> binary64 x"
proof -
  assume "0 \<le> x"
  then have "0 \<le> x / pow2 (exponent x - 52)" by simp
  then have "round_even (of_int 0) \<le> round_even (x / pow2 (exponent x - 52))"
    by (intro round_even_mono) simp
  then have "0 \<le> round_even (x / pow2 (exponent x - 52))"
    by (simp only: round_even_of_int)
  then show ?thesis by (simp add: binary64_def)
qed

lemma binary64_eqI:
  assumes "pow2 k \<le> \<bar>x\<bar>" and "\<bar>x\<bar> < pow2 (k + 1)" and "- 1022 \<le> k"
    and "(of_int n - 1 / 2) * pow2 (k - 52) < x" and "x < (of_int n + 1 / 2) * pow2 (k - 52)"
  shows "binary64 x = of_int n * pow2 (k - 52)"
proof -
  have e: "exponent x = k" using assms(1-3) by (rule exponent_normal)
  have nz: "x \<noteq> 0" using assms(1) pow2_pos [of k] by auto
  have "round_even (x / pow2 (k - 52)) = n"
    using assms(4,5) by (intro round_even_eqI) (simp_all add: field_simps)
  then show ?thesis by (simp add: binary64_def e nz)
qed

lemma binary64_exactI:
  assumes "pow2 k \<le> \<bar>x\<bar>" and "\<bar>x\<bar> < pow2 (k + 1)" and "- 1022 \<le> k"
    and "x = of_int n * pow2 (k - 52)"
  shows "binary64 x = x"
proof -
  have e: "exponent x = k" using assms(1-3) by (rule exponent_normal)
  have nz: "x \<noteq> 0" using assms(1) pow2_pos [of k] by auto
  have "x / pow2 (k - 52) = of_int n" using assms(4) by simp
  then have "round_even (x / pow2 (k - 52)) = n" by simp
  then have "binary64 x = of_int n * pow2 (k - 52)"
    unfolding binary64_def e using nz by simp
  then show ?thesis using assms(4) by simp
qed


lemma pow2_52: "pow2 52 = 2 ^ 52" and pow2_53: "pow2 53 = 2 ^ 53"
  by (simp_all add: pow2_def)

lemma pow2_split_53: "pow2 (e + 1) = 2 ^ 53 * pow2 (e - 52)"
  using pow2_add [of 53 "e - 52"] by (simp add: pow2_53 add.commute)

lemma pow2_split_52: "pow2 e = 2 ^ 52 * pow2 (e - 52)"
  using pow2_add [of 52 "e - 52"] by (simp add: pow2_52)

lemma binary64_le_pow2:
  assumes "x \<noteq> 0"
  shows "binary64 x \<le> pow2 (exponent x + 1)"
proof -
  let ?u = "pow2 (exponent x - 52)"
  have "x \<le> \<bar>x\<bar>" by simp
  also have "\<dots> < pow2 (exponent x + 1)" using assms by (rule exponent_upper)
  finally have "x / ?u \<le> pow2 (exponent x + 1) / ?u" by (simp add: divide_right_mono)
  also have "pow2 (exponent x + 1) / ?u = of_int (2 ^ 53)"
    by (simp add: pow2_split_53 [of "exponent x"])
  finally have "round_even (x / ?u) \<le> round_even (of_int (2 ^ 53))"
    by (rule round_even_mono)
  then have "round_even (x / ?u) \<le> 2 ^ 53"
    by (simp only: round_even_of_int)
  then have "(of_int (round_even (x / ?u)) :: real) \<le> of_int (2 ^ 53)"
    by (simp only: of_int_le_iff)
  then have "of_int (round_even (x / ?u)) * ?u \<le> of_int (2 ^ 53) * ?u"
    by (rule mult_right_mono) simp
  also have "of_int (2 ^ 53) * ?u = pow2 (exponent x + 1)"
    by (simp add: pow2_split_53 [of "exponent x"])
  finally show ?thesis using assms by (simp add: binary64_def)
qed

lemma binary64_ge_pow2:
  assumes "0 < x" and "- 1022 < exponent x"
  shows "pow2 (exponent x) \<le> binary64 x"
proof -
  let ?u = "pow2 (exponent x - 52)"
  have "pow2 (exponent x) \<le> \<bar>x\<bar>" using assms by (intro exponent_lower) auto
  then have "pow2 (exponent x) / ?u \<le> x / ?u" using assms(1) by (simp add: divide_right_mono)
  moreover have "pow2 (exponent x) / ?u = of_int (2 ^ 52)"
    by (simp add: pow2_split_52 [of "exponent x"])
  ultimately have "round_even (of_int (2 ^ 52)) \<le> round_even (x / ?u)"
    by (intro round_even_mono) simp
  then have "2 ^ 52 \<le> round_even (x / ?u)"
    by (simp only: round_even_of_int)
  then have "(of_int (2 ^ 52) :: real) \<le> of_int (round_even (x / ?u))"
    by (simp only: of_int_le_iff)
  then have "of_int (round_even (x / ?u)) * ?u \<ge> of_int (2 ^ 52) * ?u"
    by (intro mult_right_mono) simp_all
  also have "of_int (2 ^ 52) * ?u = pow2 (exponent x)"
    by (simp add: pow2_split_52 [of "exponent x"])
  finally show ?thesis using assms by (simp add: binary64_def)
qed

lemma binary64_mono_pos:
  assumes "0 < x" and "x \<le> y"
  shows "binary64 x \<le> binary64 y"
proof -
  have e: "exponent x \<le> exponent y" using assms by (intro exponent_mono) auto
  show ?thesis
  proof (cases "exponent x = exponent y")
    case True
    have "x / pow2 (exponent y - 52) \<le> y / pow2 (exponent y - 52)"
      using assms(2) by (simp add: divide_right_mono)
    then have "round_even (x / pow2 (exponent y - 52)) \<le> round_even (y / pow2 (exponent y - 52))"
      by (rule round_even_mono)
    then show ?thesis using assms True by (simp add: binary64_def mult_right_mono)
  next
    case False
    with e have lt: "exponent x + 1 \<le> exponent y" by simp
    have "binary64 x \<le> pow2 (exponent x + 1)" using assms(1) by (intro binary64_le_pow2) auto
    also have "\<dots> \<le> pow2 (exponent y)" using lt by (rule pow2_mono)
    also have "\<dots> \<le> binary64 y"
      using assms lt exponent_ge [of x] by (intro binary64_ge_pow2) auto
    finally show ?thesis .
  qed
qed

lemma binary64_mono: "x \<le> y \<Longrightarrow> binary64 x \<le> binary64 y"
proof -
  assume xy: "x \<le> y"
  consider "0 < x" | "x \<le> 0" "0 \<le> y" | "y < 0" by linarith
  then show ?thesis
  proof cases
    case 1
    then show ?thesis using xy by (rule binary64_mono_pos)
  next
    case 2
    have "binary64 (- x) \<ge> 0" using 2 by (intro binary64_nonneg) simp
    then have "binary64 x \<le> 0" by (simp add: binary64_minus)
    moreover have "0 \<le> binary64 y" using 2 by (intro binary64_nonneg)
    ultimately show ?thesis by linarith
  next
    case 3
    then have "binary64 (- y) \<le> binary64 (- x)" using xy by (intro binary64_mono_pos) auto
    then show ?thesis by (simp add: binary64_minus)
  qed
qed

lemma binary64_eval:
  assumes "pow2 k \<le> \<bar>x\<bar>" and "\<bar>x\<bar> < pow2 (k + 1)" and "- 1022 \<le> k"
    and "(of_int n - 1 / 2) * pow2 (k - 52) < x" and "x < (of_int n + 1 / 2) * pow2 (k - 52)"
    and "d = of_int n * pow2 (k - 52)"
  shows "binary64 x = d"
  using binary64_eqI [OF assms(1-5)] assms(6) by simp

section \<open>Properties of the fitness score\<close>


subsection \<open>Facts about the helpers\<close>

lemma Math_round_nearest:
  "(Math_round x = of_int n) = (of_int n - 1 / 2 \<le> x \<and> x < of_int n + 1 / 2)"
  unfolding Math_round_def by (simp add: floor_eq_iff) linarith

lemma String_includes_sublist: "String_includes s sub = sublist sub s"
  by (induction s) (auto simp: sublist_Cons_right)

lemma fixedTotals_simps:
  "calculateCardiovascularPoints (fixedTotals c r a) x y z =
     \<lparr> total = c, items = [''RHR'', ''HRV'', ''VO2 Max''] \<rparr>"
  "calculateRecoveryPoints (fixedTotals c r a) x y z =
     \<lparr> total = r, items = [''Deep Sleep'', ''REM Sleep'', ''Sleep Consistency''] \<rparr>"
  "calculateActivityPoints (fixedTotals c r a) x y z =
     \<lparr> total = a, items = [''Training Time'', ''Training Intensity'', ''Daily Steps''] \<rparr>"
  "createBonusHistoryItem (fixedTotals c r a) x y z = ''Bonus''"
  "calculateBonusPoints (fixedTotals c r a) = scoringUtils_calculateBonusPoints"
  by (simp_all add: fixedTotals_def)

lemma bonus_points_table:
  "points (scoringUtils_calculateBonusPoints c r a) \<in> {0, 1, 3, 5}"
  by (simp add: scoringUtils_calculateBonusPoints_def Let_def)

lemma bonus_explanation_all_three:
  "String_includes (detailedExplanation (scoringUtils_calculateBonusPoints c r a)) ''all three''
     = (length (qualifyingCategories c r a) = 3)"
  by (simp add: scoringUtils_calculateBonusPoints_def qualifyingCategories_def Let_def)

lemma qualifyingCategories_all_three:
  "(length (qualifyingCategories c r a) = 3) =
     (qualifyingCategories c r a = [''Cardiovascular'', ''Recovery'', ''Activity''])"
  by (simp add: qualifyingCategories_def)

subsection \<open>The claims\<close>


text \<open>
  C2, as the claim states it, fails: \<open>excellentCategories\<close> is not the list of the
  categories at or above 75 percent. With a cardiovascular total of 30 and the two other
  totals 0, exactly Cardiovascular qualifies, and \<open>excellentCategories\<close> is empty.
\<close>

theorem excellentCategories_not_the_qualifying_ones:
  "excellentCategories (bonusBreakdown (calculateFitnessScore (fixedTotals 30 0 0) zeroMetrics))
     = []
   \<and> qualifyingCategories
        (cardiovascularPoints (calculateFitnessScore (fixedTotals 30 0 0) zeroMetrics))
        (recoveryPoints (calculateFitnessScore (fixedTotals 30 0 0) zeroMetrics))
        (activityPoints (calculateFitnessScore (fixedTotals 30 0 0) zeroMetrics))
     = [''Cardiovascular'']"
  by (simp add: calculateFitnessScore_def Let_def fixedTotals_simps
      scoringUtils_calculateBonusPoints_def qualifyingCategories_def)

text \<open>
  C2, amended. \<open>excellentCategories\<close> is all or nothing: it is the three names, in the
  order Cardiovascular, Recovery, Activity, when the explanation that
  \<open>calculateBonusPoints\<close> returns on the three calculators' totals has the phrase
  "all three", and it is empty otherwise. If moreover the explanation of
  \<open>calculateBonusPoints\<close> has the phrase exactly when all three totals are at or above
  75 percent of their maxima, then \<open>excellentCategories\<close> is the three names when all
  three of the calculators' totals qualify (in particular when all are at 100 percent)
  and empty when fewer do.
\<close>

theorem excellentCategories_all_or_none:
  "excellentCategories (bonusBreakdown (calculateFitnessScore deps metrics)) =
     (if String_includes
           (detailedExplanation
              (calculateBonusPoints deps
                 (total (calculateCardiovascularPoints deps
                    (restingHeartRate metrics) (heartRateVariability metrics) (vo2Max metrics)))
                 (total (calculateRecoveryPoints deps
                    (deepSleepPercentage metrics) (remSleepPercentage metrics)
                    (sleepConsistency metrics)))
                 (total (calculateActivityPoints deps
                    (monthlyTrainingTime metrics / 30) (trainingIntensity metrics)
                    (dailySteps metrics)))))
           ''all three''
      then [''Cardiovascular'', ''Recovery'', ''Activity''] else [])
   \<and> ((\<forall>c r a.
          String_includes (detailedExplanation (calculateBonusPoints deps c r a)) ''all three''
            = (length (qualifyingCategories c r a) = 3))
        \<longrightarrow> excellentCategories (bonusBreakdown (calculateFitnessScore deps metrics)) =
          (if length (qualifyingCategories
                 (total (calculateCardiovascularPoints deps
                    (restingHeartRate metrics) (heartRateVariability metrics) (vo2Max metrics)))
                 (total (calculateRecoveryPoints deps
                    (deepSleepPercentage metrics) (remSleepPercentage metrics)
                    (sleepConsistency metrics)))
                 (total (calculateActivityPoints deps
                    (monthlyTrainingTime metrics / 30) (trainingIntensity metrics)
                    (dailySteps metrics)))) = 3
           then [''Cardiovascular'', ''Recovery'', ''Activity''] else []))"
  by (simp add: calculateFitnessScore_def Let_def)

theorem excellentCategories_all_or_none_witness:
  "excellentCategories (bonusBreakdown (calculateFitnessScore (fixedTotals 30 35 30) zeroMetrics))
     = [''Cardiovascular'', ''Recovery'', ''Activity'']
   \<and> qualifyingCategories 30 35 30 = [''Cardiovascular'', ''Recovery'', ''Activity'']
   \<and> excellentCategories (bonusBreakdown (calculateFitnessScore (fixedTotals 30 0 0) zeroMetrics))
     = []
   \<and> qualifyingCategories 30 0 0 = [''Cardiovascular'']"
proof -
  have contract: "\<forall>c r a.
      String_includes
        (detailedExplanation (calculateBonusPoints (fixedTotals x y z) c r a)) ''all three''
        = (length (qualifyingCategories c r a) = 3)" for x y z
    by (simp only: fixedTotals_simps bonus_explanation_all_three) simp
  have q: "qualifyingCategories 30 35 30 = [''Cardiovascular'', ''Recovery'', ''Activity'']"
    "qualifyingCategories 30 0 0 = [''Cardiovascular'']"
    by (simp_all add: qualifyingCategories_def)
  from excellentCategories_all_or_none [of "fixedTotals 30 35 30" zeroMetrics, THEN conjunct2]
    contract [of 30 35 30]
  have all: "excellentCategories
      (bonusBreakdown (calculateFitnessScore (fixedTotals 30 35 30) zeroMetrics))
      = [''Cardiovascular'', ''Recovery'', ''Activity'']"
    by (simp add: fixedTotals_simps q)
  from excellentCategories_all_or_none [of "fixedTotals 30 0 0" zeroMetrics, THEN conjunct2]
    contract [of 30 0 0]
  have one: "excellentCategories
      (bonusBreakdown (calculateFitnessScore (fixedTotals 30 0 0) zeroMetrics)) = []"
    by (simp add: fixedTotals_simps q)
  from all one q show ?thesis by simp
qed

text \<open>
  C3. If the three category calculators return totals within 0 to 30, 0 to 35 and
  0 to 30, and \<open>calculateBonusPoints\<close> returns points among 0, 1, 3 and 5, then the
  \<open>totalScore\<close> of the result is within 0 to 100.
\<close>

theorem totalScore_within_0_100:
  assumes cardio: "\<And>rhr hrv vo2.
        0 \<le> total (calculateCardiovascularPoints deps rhr hrv vo2)
        \<and> total (calculateCardiovascularPoints deps rhr hrv vo2) \<le> 30"
    and recovery: "\<And>deep rem consistency.
        0 \<le> total (calculateRecoveryPoints deps deep rem consistency)
        \<and> total (calculateRecoveryPoints deps deep rem consistency) \<le> 35"
    and activity: "\<And>minutes intensity steps.
        0 \<le> total (calculateActivityPoints deps minutes intensity steps)
        \<and> total (calculateActivityPoints deps minutes intensity steps) \<le> 30"
    and bonus: "\<And>c r a. points (calculateBonusPoints deps c r a) \<in> {0, 1, 3, 5}"
  shows "0 \<le> totalScore (calculateFitnessScore deps metrics)
         \<and> totalScore (calculateFitnessScore deps metrics) \<le> 100"
proof -
  let ?c = "calculateCardiovascularPoints deps
              (restingHeartRate metrics) (heartRateVariability metrics) (vo2Max metrics)"
  let ?r = "calculateRecoveryPoints deps
              (deepSleepPercentage metrics) (remSleepPercentage metrics)
              (sleepConsistency metrics)"
  let ?a = "calculateActivityPoints deps
              (monthlyTrainingTime metrics / 30) (trainingIntensity metrics)
              (dailySteps metrics)"
  let ?b = "calculateBonusPoints deps (total ?c) (total ?r) (total ?a)"
  have score: "totalScore (calculateFitnessScore deps metrics)
                 = total ?c + total ?r + total ?a + points ?b"
    by (simp add: calculateFitnessScore_def Let_def)
  have b: "0 \<le> points ?b \<and> points ?b \<le> 5"
    using bonus [of "total ?c" "total ?r" "total ?a"] by auto
  show ?thesis
    unfolding score
    using cardio [of "restingHeartRate metrics" "heartRateVariability metrics" "vo2Max metrics"]
      recovery [of "deepSleepPercentage metrics" "remSleepPercentage metrics"
        "sleepConsistency metrics"]
      activity [of "monthlyTrainingTime metrics / 30" "trainingIntensity metrics"
        "dailySteps metrics"] b
    by linarith
qed

theorem totalScore_within_0_100_witness:
  "0 \<le> totalScore (calculateFitnessScore (fixedTotals 30 35 30) zeroMetrics)
   \<and> totalScore (calculateFitnessScore (fixedTotals 30 35 30) zeroMetrics) \<le> 100
   \<and> totalScore (calculateFitnessScore (fixedTotals 30 35 30) zeroMetrics) = 100"
proof -
  have score: "totalScore (calculateFitnessScore (fixedTotals 30 35 30) zeroMetrics) = 100"
    by (simp add: calculateFitnessScore_def Let_def fixedTotals_simps
        scoringUtils_calculateBonusPoints_def qualifyingCategories_def)
  from totalScore_within_0_100 [of "fixedTotals 30 35 30" zeroMetrics] score show ?thesis
    by (simp add: fixedTotals_simps bonus_points_table)
qed


text \<open>
  C5. The three percentages of \<open>bonusBreakdown\<close> are \<open>Math.round (total / max * 100)\<close>
  of the totals that the three category calculators return, with the maxima 30, 35 and
  30; the quotient and the product are the binary64 ones, as the source computes them.
  (\<open>Math_round_nearest\<close>: \<open>Math.round\<close> gives the nearest integer, the larger one at a
  tie. \<open>percent_of_17_25\<close>: a total of 17.25 out of 30 gives 57, the rounded quotient
  being just below 0.575.)
\<close>

theorem bonusBreakdown_percentages:
  "cardiovascularPercent (bonusBreakdown (calculateFitnessScore deps metrics)) =
     Math_round
       (mul64
          (div64
             (total (calculateCardiovascularPoints deps
                (restingHeartRate metrics) (heartRateVariability metrics) (vo2Max metrics)))
             30)
          100)
   \<and> recoveryPercent (bonusBreakdown (calculateFitnessScore deps metrics)) =
     Math_round
       (mul64
          (div64
             (total (calculateRecoveryPoints deps
                (deepSleepPercentage metrics) (remSleepPercentage metrics)
                (sleepConsistency metrics)))
             35)
          100)
   \<and> activityPercent (bonusBreakdown (calculateFitnessScore deps metrics)) =
     Math_round
       (mul64
          (div64
             (total (calculateActivityPoints deps
                (monthlyTrainingTime metrics / 30) (trainingIntensity metrics)
                (dailySteps metrics)))
             30)
          100)"
  by (simp add: calculateFitnessScore_def Let_def)


section \<open>Properties of the data providers and the health service\<close>

subsection \<open>Facts about the helpers\<close>

lemma round_even_tie:
  "round_even (of_int n + 1 / 2) = (if even n then n else n + 1)"
proof -
  have "\<lfloor>of_int n + (1 / 2 :: real)\<rfloor> = n"
    by (simp add: floor_eq_iff)
  then show ?thesis by (simp add: round_even_def)
qed

lemma binary64_tie_eval:
  assumes "pow2 k \<le> \<bar>x\<bar>" and "\<bar>x\<bar> < pow2 (k + 1)" and "- 1022 \<le> k"
    and "x = (of_int n + 1 / 2) * pow2 (k - 52)"
    and "d = of_int (if even n then n else n + 1) * pow2 (k - 52)"
  shows "binary64 x = d"
proof -
  have e: "exponent x = k" using assms(1-3) by (rule exponent_normal)
  have nz: "x \<noteq> 0" using assms(1) pow2_pos [of k] by auto
  have "x / pow2 (k - 52) = of_int n + 1 / 2" using assms(4) by simp
  then have "round_even (x / pow2 (k - 52)) = (if even n then n else n + 1)"
    by (simp only: round_even_tie)
  then show ?thesis unfolding binary64_def e assms(5) using nz by simp
qed

lemma binary64_sqrt_eval:
  assumes "(pow2 k)\<^sup>2 \<le> v" and "v < (pow2 (k + 1))\<^sup>2" and "- 1022 \<le> k"
    and "0 \<le> of_int n - (1 / 2 :: real)"
    and "((of_int n - 1 / 2) * pow2 (k - 52))\<^sup>2 < v"
    and "v < ((of_int n + 1 / 2) * pow2 (k - 52))\<^sup>2"
    and "d = of_int n * pow2 (k - 52)"
  shows "binary64 (sqrt v) = d"
proof (rule binary64_eval [where k = k and n = n])
  have v: "0 \<le> v" using assms(1) zero_le_power2 [of "pow2 k"] by linarith
  then have a: "\<bar>sqrt v\<bar> = sqrt v" by simp
  show "pow2 k \<le> \<bar>sqrt v\<bar>" unfolding a using assms(1) by (rule real_le_rsqrt)
  show "\<bar>sqrt v\<bar> < pow2 (k + 1)" unfolding a using assms(2) by (intro real_less_lsqrt) simp_all
  show "- 1022 \<le> k" by fact
  show "(of_int n - 1 / 2) * pow2 (k - 52) < sqrt v" using assms(5) by (rule real_less_rsqrt)
  have "0 \<le> (of_int n + 1 / 2) * pow2 (k - 52)" using assms(4) by simp
  then show "sqrt v < (of_int n + 1 / 2) * pow2 (k - 52)" using assms(6) by (intro real_less_lsqrt)
  show "d = of_int n * pow2 (k - 52)" by fact
qed


lemma step_1:
  "Math_sqrt 0 = Some 0"
  by (simp add: Math_sqrt_def)

lemma step_2:
  "mul64 0 20 = 0"
  by (simp add: mul64_def)

lemma step_3:
  "sub64 100 0 = 100"
  unfolding sub64_def
  by (rule binary64_eval [where k = 6 and n = 7036874417766400]) (simp_all add: pow2_def)

lemma step_4:
  "mul64 0 10 = 0"
  by (simp add: mul64_def)

lemma step_5:
  "div64 0 10 = 0"
  by (simp add: div64_def)

lemma step_6:
  "sub64 28800000 0 = 28800000"
  unfolding sub64_def
  by (rule binary64_eval [where k = 24 and n = 7730941132800000]) (simp_all add: pow2_def)

lemma step_7:
  "div64 28800000 3600000 = 8"
  unfolding div64_def
  by (rule binary64_eval [where k = 3 and n = 4503599627370496]) (simp_all add: pow2_def)

lemma step_8:
  "add64 0 8 = 8"
  unfolding add64_def
  by (rule binary64_eval [where k = 3 and n = 4503599627370496]) (simp_all add: pow2_def)

lemma step_9:
  "divide_checked 0 8 = Some 0"
  by (simp add: divide_checked_def)

lemma step_10:
  "mul64 0 100 = 0"
  by (simp add: mul64_def)

lemma step_11:
  "divide_checked 8 1 = Some 8"
  proof -
  have "binary64 (8 / 1) = 8"
    by (rule binary64_eval [where k = 3 and n = 4503599627370496]) (simp_all add: pow2_def)
  then show ?thesis by (simp only: divide_checked_def) simp
qed

lemma step_12:
  "sub64 8 8 = 0"
  by (simp add: sub64_def)

lemma step_13:
  "Math_pow 0 2 = 0"
  by (simp add: Math_pow_def)

lemma step_14:
  "add64 0 0 = 0"
  by (simp add: add64_def)

lemma step_15:
  "divide_checked 0 1 = Some 0"
  by (simp add: divide_checked_def)

lemma step_16:
  "sub64 7200000 0 = 7200000"
  unfolding sub64_def
  by (rule binary64_eval [where k = 22 and n = 7730941132800000]) (simp_all add: pow2_def)

lemma step_17:
  "div64 7200000 3600000 = 2"
  unfolding div64_def
  by (rule binary64_eval [where k = 1 and n = 4503599627370496]) (simp_all add: pow2_def)

lemma step_18:
  "add64 0 2 = 2"
  unfolding add64_def
  by (rule binary64_eval [where k = 1 and n = 4503599627370496]) (simp_all add: pow2_def)

lemma step_19:
  "sub64 108000000 86400000 = 21600000"
  unfolding sub64_def
  by (rule binary64_eval [where k = 24 and n = 5798205849600000]) (simp_all add: pow2_def)

lemma step_20:
  "div64 21600000 3600000 = 6"
  unfolding div64_def
  by (rule binary64_eval [where k = 2 and n = 6755399441055744]) (simp_all add: pow2_def)

lemma step_21:
  "add64 2 6 = 8"
  unfolding add64_def
  by (rule binary64_eval [where k = 3 and n = 4503599627370496]) (simp_all add: pow2_def)

lemma step_22:
  "divide_checked 2 8 = Some (1 / 4)"
  proof -
  have "binary64 (2 / 8) = 1 / 4"
    by (rule binary64_eval [where k = "- 2" and n = 4503599627370496]) (simp_all add: pow2_def)
  then show ?thesis by (simp only: divide_checked_def) simp
qed

lemma step_23:
  "mul64 (1 / 4) 100 = 25"
  unfolding mul64_def
  by (rule binary64_eval [where k = 4 and n = 7036874417766400]) (simp_all add: pow2_def)

lemma step_24:
  "divide_checked 8 2 = Some 4"
  proof -
  have "binary64 (8 / 2) = 4"
    by (rule binary64_eval [where k = 2 and n = 4503599627370496]) (simp_all add: pow2_def)
  then show ?thesis by (simp only: divide_checked_def) simp
qed

lemma step_25:
  "sub64 2 4 = - 2"
  unfolding sub64_def
  by (rule binary64_eval [where k = 1 and n = "- 4503599627370496"]) (simp_all add: pow2_def)

lemma step_26:
  "Math_pow (- 2) 2 = 4"
  unfolding Math_pow_def
  by (rule binary64_eval [where k = 2 and n = 4503599627370496]) (simp_all add: pow2_def power2_eq_square)

lemma step_27:
  "add64 0 4 = 4"
  unfolding add64_def
  by (rule binary64_eval [where k = 2 and n = 4503599627370496]) (simp_all add: pow2_def)

lemma step_28:
  "sub64 6 4 = 2"
  unfolding sub64_def
  by (rule binary64_eval [where k = 1 and n = 4503599627370496]) (simp_all add: pow2_def)

lemma step_29:
  "Math_pow 2 2 = 4"
  unfolding Math_pow_def
  by (rule binary64_eval [where k = 2 and n = 4503599627370496]) (simp_all add: pow2_def power2_eq_square)

lemma step_30:
  "add64 4 4 = 8"
  unfolding add64_def
  by (rule binary64_eval [where k = 3 and n = 4503599627370496]) (simp_all add: pow2_def)

lemma step_31:
  "Math_sqrt 4 = Some 2"
  proof -
  have "binary64 (sqrt 4) = 2"
    by (rule binary64_sqrt_eval [where k = 1 and n = 4503599627370496]) (simp_all add: pow2_def power2_eq_square)
  then show ?thesis by (simp only: Math_sqrt_def) simp
qed

lemma step_32:
  "mul64 2 20 = 40"
  unfolding mul64_def
  by (rule binary64_eval [where k = 5 and n = 5629499534213120]) (simp_all add: pow2_def)

lemma step_33:
  "sub64 100 40 = 60"
  unfolding sub64_def
  by (rule binary64_eval [where k = 5 and n = 8444249301319680]) (simp_all add: pow2_def)

lemma step_34:
  "mul64 25 10 = 250"
  unfolding mul64_def
  by (rule binary64_eval [where k = 7 and n = 8796093022208000]) (simp_all add: pow2_def)

lemma step_35:
  "div64 250 10 = 25"
  unfolding div64_def
  by (rule binary64_eval [where k = 4 and n = 7036874417766400]) (simp_all add: pow2_def)

lemma step_36:
  "sub64 14400000 0 = 14400000"
  unfolding sub64_def
  by (rule binary64_eval [where k = 23 and n = 7730941132800000]) (simp_all add: pow2_def)

lemma step_37:
  "div64 14400000 3600000 = 4"
  unfolding div64_def
  by (rule binary64_eval [where k = 2 and n = 4503599627370496]) (simp_all add: pow2_def)

lemma step_38:
  "sub64 115380000 86400000 = 28980000"
  unfolding sub64_def
  by (rule binary64_eval [where k = 24 and n = 7779259514880000]) (simp_all add: pow2_def)

lemma step_39:
  "div64 28980000 3600000 = 2265873562520781 / 281474976710656"
  unfolding div64_def
  by (rule binary64_eval [where k = 3 and n = 4531747125041562]) (simp_all add: pow2_def)

lemma step_40:
  "add64 4 (2265873562520781 / 281474976710656) = 3391773469363405 / 281474976710656"
  unfolding add64_def
  by (rule binary64_eval [where k = 3 and n = 6783546938726810]) (simp_all add: pow2_def)

lemma step_41:
  "divide_checked 0 (3391773469363405 / 281474976710656) = Some 0"
  by (simp add: divide_checked_def)

lemma step_42:
  "divide_checked (3391773469363405 / 281474976710656) 2 = Some (3391773469363405 / 562949953421312)"
  proof -
  have "binary64 ((3391773469363405 / 281474976710656) / 2) = 3391773469363405 / 562949953421312"
    by (rule binary64_eval [where k = 2 and n = 6783546938726810]) (simp_all add: pow2_def)
  then show ?thesis by (simp only: divide_checked_def) simp
qed

lemma step_43:
  "sub64 4 (3391773469363405 / 562949953421312) = - (1139973655678157 / 562949953421312)"
  unfolding sub64_def
  by (rule binary64_eval [where k = 1 and n = "- 4559894622712628"]) (simp_all add: pow2_def)

lemma step_44:
  "Math_pow (- (1139973655678157 / 562949953421312)) 2 = 4616893305496537 / 1125899906842624"
  unfolding Math_pow_def
  by (rule binary64_eval [where k = 2 and n = 4616893305496537]) (simp_all add: pow2_def power2_eq_square)

lemma step_45:
  "add64 0 (4616893305496537 / 1125899906842624) = 4616893305496537 / 1125899906842624"
  unfolding add64_def
  by (rule binary64_eval [where k = 2 and n = 4616893305496537]) (simp_all add: pow2_def)

lemma step_46:
  "sub64 (2265873562520781 / 281474976710656) (3391773469363405 / 562949953421312) = 1139973655678157 / 562949953421312"
  unfolding sub64_def
  by (rule binary64_eval [where k = 1 and n = 4559894622712628]) (simp_all add: pow2_def)

lemma step_47:
  "Math_pow (1139973655678157 / 562949953421312) 2 = 4616893305496537 / 1125899906842624"
  unfolding Math_pow_def
  by (rule binary64_eval [where k = 2 and n = 4616893305496537]) (simp_all add: pow2_def power2_eq_square)

lemma step_48:
  "add64 (4616893305496537 / 1125899906842624) (4616893305496537 / 1125899906842624) = 4616893305496537 / 562949953421312"
  unfolding add64_def
  by (rule binary64_eval [where k = 3 and n = 4616893305496537]) (simp_all add: pow2_def)

lemma step_49:
  "divide_checked (4616893305496537 / 562949953421312) 2 = Some (4616893305496537 / 1125899906842624)"
  proof -
  have "binary64 ((4616893305496537 / 562949953421312) / 2) = 4616893305496537 / 1125899906842624"
    by (rule binary64_eval [where k = 2 and n = 4616893305496537]) (simp_all add: pow2_def)
  then show ?thesis by (simp only: divide_checked_def) simp
qed

lemma step_50:
  "Math_sqrt (4616893305496537 / 1125899906842624) = Some (1139973655678157 / 562949953421312)"
  proof -
  have "binary64 (sqrt (4616893305496537 / 1125899906842624)) = 1139973655678157 / 562949953421312"
    by (rule binary64_sqrt_eval [where k = 1 and n = 4559894622712628]) (simp_all add: pow2_def power2_eq_square)
  then show ?thesis by (simp only: Math_sqrt_def) simp
qed

lemma step_51:
  "mul64 (1139973655678157 / 562949953421312) 20 = 5699868278390785 / 140737488355328"
  unfolding mul64_def
  by (rule binary64_eval [where k = 5 and n = 5699868278390785]) (simp_all add: pow2_def)

lemma step_52:
  "sub64 100 (5699868278390785 / 140737488355328) = 8373880557142015 / 140737488355328"
  unfolding sub64_def
  by (rule binary64_eval [where k = 5 and n = 8373880557142015]) (simp_all add: pow2_def)

lemma step_53:
  "sub64 240000 0 = 240000"
  unfolding sub64_def
  by (rule binary64_eval [where k = 17 and n = 8246337208320000]) (simp_all add: pow2_def)

lemma step_54:
  "div64 240000 3600000 = 4803839602528529 / 72057594037927936"
  unfolding div64_def
  by (rule binary64_eval [where k = "- 4" and n = 4803839602528529]) (simp_all add: pow2_def)

lemma step_55:
  "add64 0 (4803839602528529 / 72057594037927936) = 4803839602528529 / 72057594037927936"
  unfolding add64_def
  by (rule binary64_eval [where k = "- 4" and n = 4803839602528529]) (simp_all add: pow2_def)

lemma step_56:
  "sub64 101220000 86400000 = 14820000"
  unfolding sub64_def
  by (rule binary64_eval [where k = 23 and n = 7956426915840000]) (simp_all add: pow2_def)

lemma step_57:
  "div64 14820000 3600000 = 4634954616502135 / 1125899906842624"
  unfolding div64_def
  by (rule binary64_eval [where k = 2 and n = 4634954616502135]) (simp_all add: pow2_def)

lemma step_58:
  "add64 (4803839602528529 / 72057594037927936) (4634954616502135 / 1125899906842624) = 4710014610291643 / 1125899906842624"
  unfolding add64_def
  by (rule binary64_eval [where k = 2 and n = 4710014610291643]) (simp_all add: pow2_def)

lemma step_59:
  "divide_checked 0 (4710014610291643 / 1125899906842624) = Some 0"
  by (simp add: divide_checked_def)

lemma step_60:
  "divide_checked (4710014610291643 / 1125899906842624) 2 = Some (4710014610291643 / 2251799813685248)"
  proof -
  have "binary64 ((4710014610291643 / 1125899906842624) / 2) = 4710014610291643 / 2251799813685248"
    by (rule binary64_eval [where k = 1 and n = 4710014610291643]) (simp_all add: pow2_def)
  then show ?thesis by (simp only: divide_checked_def) simp
qed

lemma step_61:
  "sub64 (4803839602528529 / 72057594037927936) (4710014610291643 / 2251799813685248) = - (2279947311356313 / 1125899906842624)"
  unfolding sub64_def
  by (rule binary64_eval [where k = 1 and n = "- 4559894622712626"]) (simp_all add: pow2_def)

lemma step_62:
  "Math_pow (- (2279947311356313 / 1125899906842624)) 2 = 4616893305496533 / 1125899906842624"
  unfolding Math_pow_def
  by (rule binary64_eval [where k = 2 and n = 4616893305496533]) (simp_all add: pow2_def power2_eq_square)

lemma step_63:
  "add64 0 (4616893305496533 / 1125899906842624) = 4616893305496533 / 1125899906842624"
  unfolding add64_def
  by (rule binary64_eval [where k = 2 and n = 4616893305496533]) (simp_all add: pow2_def)

lemma step_64:
  "sub64 (4634954616502135 / 1125899906842624) (4710014610291643 / 2251799813685248) = 4559894622712627 / 2251799813685248"
  unfolding sub64_def
  by (rule binary64_eval [where k = 1 and n = 4559894622712627]) (simp_all add: pow2_def)

lemma step_65:
  "Math_pow (4559894622712627 / 2251799813685248) 2 = 4616893305496535 / 1125899906842624"
  unfolding Math_pow_def
  by (rule binary64_eval [where k = 2 and n = 4616893305496535]) (simp_all add: pow2_def power2_eq_square)

lemma step_66:
  "add64 (4616893305496533 / 1125899906842624) (4616893305496535 / 1125899906842624) = 2308446652748267 / 281474976710656"
  unfolding add64_def
  by (rule binary64_eval [where k = 3 and n = 4616893305496534]) (simp_all add: pow2_def)

lemma step_67:
  "divide_checked (2308446652748267 / 281474976710656) 2 = Some (2308446652748267 / 562949953421312)"
  proof -
  have "binary64 ((2308446652748267 / 281474976710656) / 2) = 2308446652748267 / 562949953421312"
    by (rule binary64_eval [where k = 2 and n = 4616893305496534]) (simp_all add: pow2_def)
  then show ?thesis by (simp only: divide_checked_def) simp
qed

lemma step_68:
  "Math_sqrt (2308446652748267 / 562949953421312) = Some (4559894622712627 / 2251799813685248)"
  proof -
  have "binary64 (sqrt (2308446652748267 / 562949953421312)) = 4559894622712627 / 2251799813685248"
    by (rule binary64_sqrt_eval [where k = 1 and n = 4559894622712627]) (simp_all add: pow2_def power2_eq_square)
  then show ?thesis by (simp only: Math_sqrt_def) simp
qed

lemma step_69:
  "mul64 (4559894622712627 / 2251799813685248) 20 = 81 / 2"
  unfolding mul64_def
  by (rule binary64_eval [where k = 5 and n = 5699868278390784]) (simp_all add: pow2_def)

lemma step_70:
  "sub64 100 (81 / 2) = 119 / 2"
  unfolding sub64_def
  by (rule binary64_eval [where k = 5 and n = 8373880557142016]) (simp_all add: pow2_def)

lemma step_71:
  "sub64 8280000 0 = 8280000"
  unfolding sub64_def
  by (rule binary64_eval [where k = 22 and n = 8890582302720000]) (simp_all add: pow2_def)

lemma step_72:
  "div64 8280000 3600000 = 2589569785738035 / 1125899906842624"
  unfolding div64_def
  by (rule binary64_eval [where k = 1 and n = 5179139571476070]) (simp_all add: pow2_def)

lemma step_73:
  "add64 0 (2589569785738035 / 1125899906842624) = 2589569785738035 / 1125899906842624"
  unfolding add64_def
  by (rule binary64_eval [where k = 1 and n = 5179139571476070]) (simp_all add: pow2_def)

lemma step_74:
  "sub64 28800000 8280000 = 20520000"
  unfolding sub64_def
  by (rule binary64_eval [where k = 24 and n = 5508295557120000]) (simp_all add: pow2_def)

lemma step_75:
  "div64 20520000 3600000 = 6417629469002957 / 1125899906842624"
  unfolding div64_def
  by (rule binary64_eval [where k = 2 and n = 6417629469002957]) (simp_all add: pow2_def)

lemma step_76:
  "add64 (2589569785738035 / 1125899906842624) (6417629469002957 / 1125899906842624) = 8"
  unfolding add64_def
  by (rule binary64_eval [where k = 3 and n = 4503599627370496]) (simp_all add: pow2_def)

lemma step_77:
  "divide_checked (2589569785738035 / 1125899906842624) 8 = Some (2589569785738035 / 9007199254740992)"
  proof -
  have "binary64 ((2589569785738035 / 1125899906842624) / 8) = 2589569785738035 / 9007199254740992"
    by (rule binary64_eval [where k = "- 2" and n = 5179139571476070]) (simp_all add: pow2_def)
  then show ?thesis by (simp only: divide_checked_def) simp
qed

lemma step_78:
  "mul64 (2589569785738035 / 9007199254740992) 100 = 8092405580431359 / 281474976710656"
  unfolding mul64_def
  by (rule binary64_eval [where k = 4 and n = 8092405580431359]) (simp_all add: pow2_def)

lemma step_79:
  "sub64 (2589569785738035 / 1125899906842624) 4 = - (1914029841632461 / 1125899906842624)"
  unfolding sub64_def
  by (rule binary64_eval [where k = 0 and n = "- 7656119366529844"]) (simp_all add: pow2_def)

lemma step_80:
  "Math_pow (- (1914029841632461 / 1125899906842624)) 2 = 203365670673449 / 70368744177664"
  unfolding Math_pow_def
  by (rule binary64_eval [where k = 1 and n = 6507701461550368]) (simp_all add: pow2_def power2_eq_square)

lemma step_81:
  "add64 0 (203365670673449 / 70368744177664) = 203365670673449 / 70368744177664"
  unfolding add64_def
  by (rule binary64_eval [where k = 1 and n = 6507701461550368]) (simp_all add: pow2_def)

lemma step_82:
  "sub64 (6417629469002957 / 1125899906842624) 4 = 1914029841632461 / 1125899906842624"
  unfolding sub64_def
  by (rule binary64_eval [where k = 0 and n = 7656119366529844]) (simp_all add: pow2_def)

lemma step_83:
  "Math_pow (1914029841632461 / 1125899906842624) 2 = 203365670673449 / 70368744177664"
  unfolding Math_pow_def
  by (rule binary64_eval [where k = 1 and n = 6507701461550368]) (simp_all add: pow2_def power2_eq_square)

lemma step_84:
  "add64 (203365670673449 / 70368744177664) (203365670673449 / 70368744177664) = 203365670673449 / 35184372088832"
  unfolding add64_def
  by (rule binary64_eval [where k = 2 and n = 6507701461550368]) (simp_all add: pow2_def)

lemma step_85:
  "divide_checked (203365670673449 / 35184372088832) 2 = Some (203365670673449 / 70368744177664)"
  proof -
  have "binary64 ((203365670673449 / 35184372088832) / 2) = 203365670673449 / 70368744177664"
    by (rule binary64_eval [where k = 1 and n = 6507701461550368]) (simp_all add: pow2_def)
  then show ?thesis by (simp only: divide_checked_def) simp
qed

lemma step_86:
  "Math_sqrt (203365670673449 / 70368744177664) = Some (1914029841632461 / 1125899906842624)"
  proof -
  have "binary64 (sqrt (203365670673449 / 70368744177664)) = 1914029841632461 / 1125899906842624"
    by (rule binary64_sqrt_eval [where k = 0 and n = 7656119366529844]) (simp_all add: pow2_def power2_eq_square)
  then show ?thesis by (simp only: Math_sqrt_def) simp
qed

lemma step_87:
  "mul64 (1914029841632461 / 1125899906842624) 20 = 34"
  unfolding mul64_def
  by (rule binary64_tie_eval [where k = 5 and n = 4785074604081152]) (simp_all add: pow2_def)

lemma step_88:
  "sub64 100 34 = 66"
  unfolding sub64_def
  by (rule binary64_eval [where k = 6 and n = 4644337115725824]) (simp_all add: pow2_def)

lemma step_89:
  "mul64 (8092405580431359 / 281474976710656) 10 = 5057753487769599 / 17592186044416"
  unfolding mul64_def
  by (rule binary64_eval [where k = 8 and n = 5057753487769599]) (simp_all add: pow2_def)

lemma step_90:
  "div64 287 10 = 8078331831595827 / 281474976710656"
  unfolding div64_def
  by (rule binary64_eval [where k = 4 and n = 8078331831595827]) (simp_all add: pow2_def)

lemma step_91:
  "div64 (69 / 4) 30 = 2589569785738035 / 4503599627370496"
  unfolding div64_def
  by (rule binary64_eval [where k = "- 1" and n = 5179139571476070]) (simp_all add: pow2_def)

lemma step_92:
  "mul64 (2589569785738035 / 4503599627370496) 100 = 8092405580431359 / 140737488355328"
  unfolding mul64_def
  by (rule binary64_eval [where k = 5 and n = 8092405580431359]) (simp_all add: pow2_def)

lemma step_93:
  "div64 300 30 = 10"
  unfolding div64_def
  by (rule binary64_eval [where k = 3 and n = 5629499534213120]) (simp_all add: pow2_def)

lemmas rounding_steps =
  step_1 step_2 step_3 step_4 step_5 step_6 step_7 step_8 step_9 step_10 step_11 step_12 step_13 step_14 step_15 step_16 step_17 step_18 step_19 step_20 step_21 step_22 step_23 step_24 step_25 step_26 step_27 step_28 step_29 step_30 step_31 step_32 step_33 step_34 step_35 step_36 step_37 step_38 step_39 step_40 step_41 step_42 step_43 step_44 step_45 step_46 step_47 step_48 step_49 step_50 step_51 step_52 step_53 step_54 step_55 step_56 step_57 step_58 step_59 step_60 step_61 step_62 step_63 step_64 step_65 step_66 step_67 step_68 step_69 step_70 step_71 step_72 step_73 step_74 step_75 step_76 step_77 step_78 step_79 step_80 step_81 step_82 step_83 step_84 step_85 step_86 step_87 step_88 step_89 step_90 step_91 step_92 step_93



lemma Math_round_of_int: "Math_round (of_int n) = of_int n"
  unfolding Math_round_def by (simp add: floor_eq_iff)

lemma Math_round_0: "Math_round 0 = 0" and Math_round_100: "Math_round 100 = 100"
  using Math_round_of_int [of 0] Math_round_of_int [of 100] by simp_all

lemma binary64_100: "binary64 100 = 100"
  by (rule binary64_eval [where k = 6 and n = 7036874417766400]) (simp_all add: pow2_def)

lemma foldl_squares_nonneg:
  "0 \<le> z \<Longrightarrow>
   0 \<le> foldl (\<lambda>sum duration. add64 sum (Math_pow (sub64 duration m) 2)) z durations"
proof (induction durations arbitrary: z)
  case Nil
  then show ?case by simp
next
  case (Cons d ds)
  have "0 \<le> Math_pow (sub64 d m) 2"
    unfolding Math_pow_def by (rule binary64_nonneg) simp
  with Cons.prems have "0 \<le> add64 z (Math_pow (sub64 d m) 2)"
    unfolding add64_def by (intro binary64_nonneg) simp
  then show ?case by (simp add: Cons.IH)
qed

lemma sleepStandardDeviation_total:
  "\<exists>s. sleepStandardDeviation durations = Some s \<and> 0 \<le> s"
proof (cases "durations = []")
  case True
  then show ?thesis by (simp add: sleepStandardDeviation_def Math_sqrt_def)
next
  case False
  then have n: "(of_nat (length durations) :: real) \<noteq> 0" "0 < length durations"
    by simp_all
  let ?avg = "binary64 (foldl (\<lambda>a b. add64 a b) 0 durations / of_nat (length durations))"
  let ?var = "binary64
      (foldl (\<lambda>sum duration. add64 sum (Math_pow (sub64 duration ?avg) 2)) 0 durations
       / of_nat (length durations))"
  have var: "0 \<le> ?var"
    by (intro binary64_nonneg divide_nonneg_nonneg foldl_squares_nonneg) simp_all
  have "sleepStandardDeviation durations = Some (binary64 (sqrt ?var))"
    using n var by (simp add: sleepStandardDeviation_def divide_checked_def Math_sqrt_def not_less)
  moreover have "0 \<le> binary64 (sqrt ?var)"
    using var by (intro binary64_nonneg) simp
  ultimately show ?thesis by blast
qed

lemma sleepCallback_result:
  "\<exists>r s. sleepCallback results = Some r
       \<and> sleepStandardDeviation (sleepDurations (sleepTotals results)) = Some s
       \<and> 0 \<le> s
       \<and> SleepAnalysis.sleepConsistency r =
           Math_round (Math_max 0 (sub64 100 (mul64 s 20)))"
proof -
  obtain s where s: "sleepStandardDeviation (sleepDurations (sleepTotals results)) = Some s"
    and s0: "0 \<le> s"
    using sleepStandardDeviation_total by blast
  show ?thesis
    using s s0 by (auto simp add: sleepCallback_def Let_def divide_checked_def)
qed





lemma sleepCallback_twoNights:
  "sleepCallback twoNights =
     Some \<lparr> SleepAnalysis.deepSleepPercentage = 25, remSleepPercentage = 0,
            sleepConsistency = 60 \<rparr>"
  by (simp add: sleepCallback_def sleepStandardDeviation_def sleepTotals_def
      addSleepSample_def twoNights_def Let_def Math_max_def Math_round_def
      rounding_steps)

lemma sleepCallback_oneNight:
  "sleepCallback oneNight =
     Some \<lparr> SleepAnalysis.deepSleepPercentage = 0, remSleepPercentage = 0,
            sleepConsistency = 100 \<rparr>"
  by (simp add: sleepCallback_def sleepStandardDeviation_def sleepTotals_def
      addSleepSample_def oneNight_def Let_def Math_max_def Math_round_def
      rounding_steps)

lemma sleepCallback_empty:
  "sleepCallback [] =
     Some \<lparr> SleepAnalysis.deepSleepPercentage = 0, remSleepPercentage = 0,
            sleepConsistency = 100 \<rparr>"
  by (simp add: sleepCallback_def sleepStandardDeviation_def sleepTotals_def
      Let_def Math_max_def Math_round_def rounding_steps)


lemma sleepCallback_deepAndCore:
  "sleepCallback deepAndCore =
     Some \<lparr> SleepAnalysis.deepSleepPercentage = div64 287 10, remSleepPercentage = 0,
            sleepConsistency = 66 \<rparr>"
  by (simp add: sleepCallback_def sleepStandardDeviation_def sleepTotals_def
      addSleepSample_def deepAndCore_def Let_def Math_max_def Math_round_def
      rounding_steps)




lemma percent_of_17_25: "Math_round (mul64 (div64 (69 / 4) 30) 100) = 57"
  by (simp add: rounding_steps Math_round_def)

lemma daily_average_of_300: "div64 300 30 = 10"
  by (simp add: rounding_steps)

lemma rounded_total_within_0_100:
  assumes "0 \<le> c" "c \<le> 30" "0 \<le> r" "r \<le> 35" "0 \<le> a" "a \<le> 30" "0 \<le> b" "b \<le> 5"
  shows "0 \<le> add64 (add64 (add64 c r) a) b \<and> add64 (add64 (add64 c r) a) b \<le> 100"
proof -
  have b65: "binary64 65 = 65"
    by (rule binary64_eval [where k = 6 and n = "65 * 2 ^ 46"]) (simp_all add: pow2_def)
  have b95: "binary64 95 = 95"
    by (rule binary64_eval [where k = 6 and n = "95 * 2 ^ 46"]) (simp_all add: pow2_def)
  have 1: "0 \<le> add64 c r" "add64 c r \<le> 65"
    unfolding add64_def using assms binary64_mono [of "c + r" 65]
    by (simp_all add: binary64_nonneg b65)
  have 2: "0 \<le> add64 (add64 c r) a" "add64 (add64 c r) a \<le> 95"
    unfolding add64_def [of "add64 c r"] using assms 1 binary64_mono [of "add64 c r + a" 95]
    by (simp_all add: binary64_nonneg b95)
  show ?thesis
    unfolding add64_def [of "add64 (add64 c r) a"]
    using assms 2 binary64_mono [of "add64 (add64 c r) a + b" 100]
    by (simp add: binary64_nonneg binary64_100)
qed

lemma average_checked:
  "(if length (results :: HealthValue list) > 0
    then divide_checked (foldl (\<lambda>sum sample. add64 sum (value sample)) 0 results)
           (of_nat (length results))
    else Some 0) =
   Some (if results = [] then 0
         else binary64 (foldl (\<lambda>sum sample. add64 sum (value sample)) 0 results
                          / of_nat (length results)))"
  by (simp add: divide_checked_def)

lemma getRestingHeartRateData_value:
  "getRestingHeartRateData env =
     Some (Inr (if Platform_OS env \<noteq> ''ios'' \<or> truthy (fst (getRestingHeartRateSamples env))
                   \<or> snd (getRestingHeartRateSamples env) = []
                then 0
                else Math_round
                       (binary64
                          (foldl (\<lambda>sum sample. add64 sum (value sample)) 0
                             (snd (getRestingHeartRateSamples env))
                           / of_nat (length (snd (getRestingHeartRateSamples env)))))))"
  by (cases "getRestingHeartRateSamples env")
     (simp add: getRestingHeartRateData_def average_checked Math_round_0
        del: length_greater_0_conv)

lemma getHeartRateVariabilityData_value:
  "getHeartRateVariabilityData env =
     Some (Inr (if Platform_OS env \<noteq> ''ios''
                   \<or> truthy (fst (getHeartRateVariabilitySamples env))
                   \<or> snd (getHeartRateVariabilitySamples env) = []
                then 0
                else Math_round
                       (binary64
                          (foldl (\<lambda>sum sample. add64 sum (value sample)) 0
                             (snd (getHeartRateVariabilitySamples env))
                           / of_nat (length (snd (getHeartRateVariabilitySamples env)))))))"
  by (cases "getHeartRateVariabilitySamples env")
     (simp add: getHeartRateVariabilityData_def average_checked Math_round_0
        del: length_greater_0_conv)

lemma getVO2MaxData_value:
  "getVO2MaxData env =
     Some (Inr (if Platform_OS env \<noteq> ''ios'' \<or> truthy (fst (getVo2MaxSamples env))
                   \<or> snd (getVo2MaxSamples env) = []
                then 0
                else div64
                       (Math_round
                          (mul64
                             (binary64
                                (foldl (\<lambda>sum sample. add64 sum (value sample)) 0
                                   (snd (getVo2MaxSamples env))
                                 / of_nat (length (snd (getVo2MaxSamples env)))))
                             10))
                       10))"
  by (cases "getVo2MaxSamples env")
     (simp add: getVO2MaxData_def average_checked Math_round_0 mul64_def div64_def
        del: length_greater_0_conv)

lemma getTodaysStepCount_value:
  "getTodaysStepCount env =
     Some (Inr (if Platform_OS env \<noteq> ''ios'' \<or> truthy (fst (getStepCount env))
                then 0 else value (snd (getStepCount env))))"
  by (cases "getStepCount env") (simp add: getTodaysStepCount_def)

lemma getSleepAnalysisData_resolves: "\<exists>v. getSleepAnalysisData env = Some (Inr v)"
  using sleepCallback_result [of "snd (getSleepSamples env)"]
  by (cases "getSleepSamples env") (auto simp add: getSleepAnalysisData_def)

lemma providers_never_reject:
  "(\<exists>v. getRestingHeartRateData env = Some (Inr v))
   \<and> (\<exists>v. getHeartRateVariabilityData env = Some (Inr v))
   \<and> (\<exists>v. getVO2MaxData env = Some (Inr v))
   \<and> (\<exists>v. getSleepAnalysisData env = Some (Inr v))
   \<and> (\<exists>v. getTodaysStepCount env = Some (Inr v))"
  using getRestingHeartRateData_value getHeartRateVariabilityData_value getVO2MaxData_value
    getSleepAnalysisData_resolves getTodaysStepCount_value
  by blast

lemma getSleepAnalysisData_zero_record:
  assumes "Platform_OS env \<noteq> ''ios'' \<or> truthy (fst (getSleepSamples env))"
  shows "getSleepAnalysisData env =
           Some (Inr \<lparr> SleepAnalysis.deepSleepPercentage = 0, remSleepPercentage = 0,
                       sleepConsistency = 0 \<rparr>)"
  using assms by (cases "getSleepSamples env") (auto simp add: getSleepAnalysisData_def)

lemma initialize_result:
  "initialize this env =
     (if Platform_OS env = ''ios'' \<and> \<not> truthy (initHealthKit env)
      then (this\<lparr> isHealthKitInitialized := True \<rparr>, True)
      else if Platform_OS env = ''ios''
      then (this\<lparr> isHealthKitInitialized := False \<rparr>, False)
      else (this, False))"
  by (simp add: initialize_def)

lemma collectHealthMetrics_settles:
  "\<exists>rhr hrv vo2 sleep steps.
     getRestingHeartRateData env = Some (Inr rhr)
     \<and> getHeartRateVariabilityData env = Some (Inr hrv)
     \<and> getVO2MaxData env = Some (Inr vo2)
     \<and> getSleepAnalysisData env = Some (Inr sleep)
     \<and> getTodaysStepCount env = Some (Inr steps)
     \<and> collectHealthMetrics env =
         Some (case getMonthlyWorkoutData env of
                 Inl e \<Rightarrow> Inl e
               | Inr workoutData \<Rightarrow>
                   Inr \<lparr> restingHeartRate = rhr, heartRateVariability = hrv, vo2Max = vo2,
                         deepSleepPercentage = SleepAnalysis.deepSleepPercentage sleep,
                         remSleepPercentage = SleepAnalysis.remSleepPercentage sleep,
                         sleepConsistency = SleepAnalysis.sleepConsistency sleep,
                         monthlyTrainingTime = WorkoutData.monthlyTrainingTime workoutData,
                         trainingIntensity = WorkoutData.trainingIntensity workoutData,
                         dailySteps = steps \<rparr>)"
proof -
  obtain v1 where v1: "getRestingHeartRateData env = Some (Inr v1)"
    using getRestingHeartRateData_value by blast
  obtain v2 where v2: "getHeartRateVariabilityData env = Some (Inr v2)"
    using getHeartRateVariabilityData_value by blast
  obtain v3 where v3: "getVO2MaxData env = Some (Inr v3)"
    using getVO2MaxData_value by blast
  obtain v4 where v4: "getSleepAnalysisData env = Some (Inr v4)"
    using getSleepAnalysisData_resolves by blast
  obtain v5 where v5: "getTodaysStepCount env = Some (Inr v5)"
    using getTodaysStepCount_value by blast
  show ?thesis
    by (cases "getMonthlyWorkoutData env")
       (simp_all add: collectHealthMetrics_def v1 v2 v3 v4 v5 await_def)
qed

lemma iPhone_simps:
  "Platform_OS (iPhone xs) = ''ios''"
  "initHealthKit (iPhone xs) = None"
  "getRestingHeartRateSamples (iPhone xs) = (None, [])"
  "getHeartRateVariabilitySamples (iPhone xs) = (None, [])"
  "getVo2MaxSamples (iPhone xs) = (None, [])"
  "getSleepSamples (iPhone xs) = (None, xs)"
  "getStepCount (iPhone xs) = (None, \<lparr> value = 0 \<rparr>)"
  "getMonthlyWorkoutData (iPhone xs) =
     Inr \<lparr> WorkoutData.monthlyTrainingTime = 0, trainingIntensity = 0 \<rparr>"
  by (simp_all add: iPhone_def)

subsection \<open>The claims\<close>




text \<open>
  C8, as the claim states it, fails in one direction: initialization can succeed and
  \<open>getAllHealthMetrics\<close> still reject. The \<open>catch\<close> block rethrows whatever
  \<open>Promise.all\<close> rejects with, and the sixth provider, \<open>getMonthlyWorkoutData\<close>, is
  not one of those shown never to reject.
\<close>

theorem getAllHealthMetrics_rejects_after_successful_initialization:
  "snd (initialize \<lparr> isHealthKitInitialized = False \<rparr>
          ((iPhone [])\<lparr> getMonthlyWorkoutData := Inl (ProviderError ''workout query failed'') \<rparr>))
   \<and> getAllHealthMetrics \<lparr> isHealthKitInitialized = False \<rparr>
         ((iPhone [])\<lparr> getMonthlyWorkoutData := Inl (ProviderError ''workout query failed'') \<rparr>)
       = Some (\<lparr> isHealthKitInitialized = True \<rparr>,
               Inl (ProviderError ''workout query failed''))"
  by (simp add: getAllHealthMetrics_def initialize_def collectHealthMetrics_def await_def
      iPhone_simps getRestingHeartRateData_value getHeartRateVariabilityData_value
      getVO2MaxData_value getTodaysStepCount_value getSleepAnalysisData_def
      sleepCallback_empty)

text \<open>
  C8, amended. \<open>getAllHealthMetrics\<close> rejects with the \<open>HealthKitInitializationError\<close>
  when the service is not yet initialized and the initialization fails, that is, off
  iOS or when \<open>initHealthKit\<close> reports an error. Otherwise the five providers of
  \<open>healthDataProviders\<close> resolve, and \<open>getAllHealthMetrics\<close> settles as
  \<open>getMonthlyWorkoutData\<close> does: it rejects with that provider's error when that one
  rejects, and resolves with the record of the nine fields, each what its provider
  resolved with, when that one resolves. The service is initialized afterwards exactly
  when it was before or the initialization succeeded.
\<close>

theorem getAllHealthMetrics_settles:
  "\<exists>this' rhr hrv vo2 sleep steps.
     getRestingHeartRateData env = Some (Inr rhr)
     \<and> getHeartRateVariabilityData env = Some (Inr hrv)
     \<and> getVO2MaxData env = Some (Inr vo2)
     \<and> getSleepAnalysisData env = Some (Inr sleep)
     \<and> getTodaysStepCount env = Some (Inr steps)
     \<and> isHealthKitInitialized this' =
         (isHealthKitInitialized this
          \<or> (Platform_OS env = ''ios'' \<and> \<not> truthy (initHealthKit env)))
     \<and> getAllHealthMetrics this env =
         Some (this',
               if \<not> isHealthKitInitialized this
                  \<and> \<not> (Platform_OS env = ''ios'' \<and> \<not> truthy (initHealthKit env))
               then Inl (HealthKitInitializationError ''Failed to initialize HealthKit'')
               else case getMonthlyWorkoutData env of
                      Inl e \<Rightarrow> Inl e
                    | Inr workoutData \<Rightarrow>
                        Inr \<lparr> restingHeartRate = rhr, heartRateVariability = hrv, vo2Max = vo2,
                              deepSleepPercentage = SleepAnalysis.deepSleepPercentage sleep,
                              remSleepPercentage = SleepAnalysis.remSleepPercentage sleep,
                              sleepConsistency = SleepAnalysis.sleepConsistency sleep,
                              monthlyTrainingTime =
                                WorkoutData.monthlyTrainingTime workoutData,
                              trainingIntensity = WorkoutData.trainingIntensity workoutData,
                              dailySteps = steps \<rparr>)"
proof -
  obtain rhr hrv vo2 sleep steps where
    p: "getRestingHeartRateData env = Some (Inr rhr)"
       "getHeartRateVariabilityData env = Some (Inr hrv)"
       "getVO2MaxData env = Some (Inr vo2)"
       "getSleepAnalysisData env = Some (Inr sleep)"
       "getTodaysStepCount env = Some (Inr steps)"
    and c: "collectHealthMetrics env =
         Some (case getMonthlyWorkoutData env of
                 Inl e \<Rightarrow> Inl e
               | Inr workoutData \<Rightarrow>
                   Inr \<lparr> restingHeartRate = rhr, heartRateVariability = hrv, vo2Max = vo2,
                         deepSleepPercentage = SleepAnalysis.deepSleepPercentage sleep,
                         remSleepPercentage = SleepAnalysis.remSleepPercentage sleep,
                         sleepConsistency = SleepAnalysis.sleepConsistency sleep,
                         monthlyTrainingTime = WorkoutData.monthlyTrainingTime workoutData,
                         trainingIntensity = WorkoutData.trainingIntensity workoutData,
                         dailySteps = steps \<rparr>)"
    using collectHealthMetrics_settles [of env] by blast
  let ?this' = "if isHealthKitInitialized this then this else fst (initialize this env)"
  have flag: "isHealthKitInitialized ?this' =
         (isHealthKitInitialized this
          \<or> (Platform_OS env = ''ios'' \<and> \<not> truthy (initHealthKit env)))"
    by (simp add: initialize_result)
  have run: "getAllHealthMetrics this env =
         Some (?this',
               if \<not> isHealthKitInitialized this
                  \<and> \<not> (Platform_OS env = ''ios'' \<and> \<not> truthy (initHealthKit env))
               then Inl (HealthKitInitializationError ''Failed to initialize HealthKit'')
               else case getMonthlyWorkoutData env of
                      Inl e \<Rightarrow> Inl e
                    | Inr workoutData \<Rightarrow>
                        Inr \<lparr> restingHeartRate = rhr, heartRateVariability = hrv, vo2Max = vo2,
                              deepSleepPercentage = SleepAnalysis.deepSleepPercentage sleep,
                              remSleepPercentage = SleepAnalysis.remSleepPercentage sleep,
                              sleepConsistency = SleepAnalysis.sleepConsistency sleep,
                              monthlyTrainingTime =
                                WorkoutData.monthlyTrainingTime workoutData,
                              trainingIntensity = WorkoutData.trainingIntensity workoutData,
                              dailySteps = steps \<rparr>)"
    by (simp add: getAllHealthMetrics_def initialize_result c)
  from p flag run show ?thesis by blast
qed

theorem getAllHealthMetrics_settles_witness:
  "(\<exists>this' metrics.
      getAllHealthMetrics \<lparr> isHealthKitInitialized = False \<rparr> (iPhone twoNights)
        = Some (this', Inr metrics)
      \<and> isHealthKitInitialized this'
      \<and> restingHeartRate metrics = 0 \<and> sleepConsistency metrics = 60
      \<and> dailySteps metrics = 0 \<and> monthlyTrainingTime metrics = 0)
   \<and> (\<exists>this'.
      getAllHealthMetrics \<lparr> isHealthKitInitialized = False \<rparr>
        ((iPhone twoNights)\<lparr> Platform_OS := ''android'' \<rparr>)
        = Some (this', Inl (HealthKitInitializationError ''Failed to initialize HealthKit''))
      \<and> \<not> isHealthKitInitialized this')"
proof -
  let ?svc = "\<lparr> isHealthKitInitialized = False \<rparr>"
  let ?android = "(iPhone twoNights)\<lparr> Platform_OS := ''android'' \<rparr>"
  have rhr: "getRestingHeartRateData (iPhone twoNights) = Some (Inr 0)"
    by (simp add: getRestingHeartRateData_value iPhone_simps)
  have steps: "getTodaysStepCount (iPhone twoNights) = Some (Inr 0)"
    by (simp add: getTodaysStepCount_value iPhone_simps)
  have sleep: "getSleepAnalysisData (iPhone twoNights) =
      Some (Inr \<lparr> SleepAnalysis.deepSleepPercentage = 25, remSleepPercentage = 0,
                  sleepConsistency = 60 \<rparr>)"
    by (simp add: getSleepAnalysisData_def iPhone_simps sleepCallback_twoNights)
  from getAllHealthMetrics_settles [of "iPhone twoNights" ?svc]
  have first: "\<exists>this' metrics.
      getAllHealthMetrics ?svc (iPhone twoNights) = Some (this', Inr metrics)
      \<and> isHealthKitInitialized this'
      \<and> restingHeartRate metrics = 0 \<and> sleepConsistency metrics = 60
      \<and> dailySteps metrics = 0 \<and> monthlyTrainingTime metrics = 0"
    by (auto simp add: iPhone_simps rhr steps sleep)
  from getAllHealthMetrics_settles [of ?android ?svc]
  have second: "\<exists>this'.
      getAllHealthMetrics ?svc ?android
        = Some (this', Inl (HealthKitInitializationError ''Failed to initialize HealthKit''))
      \<and> \<not> isHealthKitInitialized this'"
    by auto
  from first second show ?thesis by blast
qed

text \<open>
  C9 fails on the sleep provider: on iOS, when the sleep query reports no error and
  answers no samples, \<open>getSleepAnalysisData\<close> resolves with \<open>sleepConsistency = 100\<close>,
  not with the all-zero record. (\<open>providers_never_reject\<close> and the \<open>_value\<close> lemmas
  above hold the rest of the claim: no provider rejects, and the four numeric providers
  resolve with 0 off iOS, on a callback error and on an empty sample list.)
\<close>

theorem getSleepAnalysisData_no_samples:
  "getSleepAnalysisData (iPhone []) =
     Some (Inr \<lparr> SleepAnalysis.deepSleepPercentage = 0, remSleepPercentage = 0,
                 sleepConsistency = 100 \<rparr>)"
  by (simp add: getSleepAnalysisData_def iPhone_simps sleepCallback_empty)

text \<open>
  C10. On iOS, when the sleep query answers no samples, \<open>getSleepAnalysisData\<close>
  resolves with both percentages 0, and with \<open>sleepConsistency\<close> 100 when the callback
  reports no error (the standard deviation of no samples is 0) but 0 when it reports
  one. On no list of samples does the callback divide by zero.
\<close>

theorem empty_sleep_samples_guarded:
  assumes "Platform_OS env = ''ios''" and "getSleepSamples env = (callbackError, [])"
  shows "getSleepAnalysisData env =
           Some (Inr \<lparr> SleepAnalysis.deepSleepPercentage = 0, remSleepPercentage = 0,
                       sleepConsistency = (if truthy callbackError then 0 else 100) \<rparr>)
         \<and> populationStandardDeviation (sleepHours []) = 0
         \<and> sleepCallback results \<noteq> None"
  using assms sleepCallback_result [of results]
  by (auto simp add: getSleepAnalysisData_def sleepCallback_empty sleepHours_def
      populationStandardDeviation_def)

theorem empty_sleep_samples_guarded_witness:
  "getSleepAnalysisData (iPhone []) =
     Some (Inr \<lparr> SleepAnalysis.deepSleepPercentage = 0, remSleepPercentage = 0,
                 sleepConsistency = 100 \<rparr>)
   \<and> getSleepAnalysisData ((iPhone [])\<lparr> getSleepSamples := (Some ''denied'', []) \<rparr>) =
     Some (Inr \<lparr> SleepAnalysis.deepSleepPercentage = 0, remSleepPercentage = 0,
                 sleepConsistency = 0 \<rparr>)"
  using empty_sleep_samples_guarded [of "iPhone []" None]
    empty_sleep_samples_guarded
      [of "(iPhone [])\<lparr> getSleepSamples := (Some ''denied'', []) \<rparr>" "Some ''denied''"]
  by (simp add: iPhone_simps)

end
